theory Spec2Isabelle
  imports Complex_Main "HOL-Library.Multiset"
begin

unbundle bit_operations_syntax

section \<open>Values: numpy doubles and Python errors\<close>

text \<open>
  A cell of a pandas table holds a numpy double. The claims are about how NaN, the two
  infinities, zero and the comparisons behave, so a double is a finite real, an infinity or
  NaN. Arithmetic on finite values is exact (no rounding, no overflow of finite operands,
  no negative zero); comparisons, NaN and division by zero follow IEEE 754 as numpy
  applies it to arrays (a warning, never an exception).
\<close>

datatype fl = Fin real | PInf | NInf | NaN

datatype py_error = KeyError | ZeroDivisionError | ValueError | OverflowError | UnboundLocalError

definition isnan :: "fl \<Rightarrow> bool" where
  "isnan x = (x = NaN)"

text \<open>\<open>x > y\<close> on doubles: false as soon as one side is NaN.\<close>

fun fl_gt :: "fl \<Rightarrow> fl \<Rightarrow> bool" where
  "fl_gt NaN y = False"
| "fl_gt x NaN = False"
| "fl_gt (Fin a) (Fin b) = (b < a)"
| "fl_gt (Fin a) PInf = False"
| "fl_gt (Fin a) NInf = True"
| "fl_gt PInf PInf = False"
| "fl_gt PInf y = True"
| "fl_gt NInf y = False"

definition fl_lt :: "fl \<Rightarrow> fl \<Rightarrow> bool" where
  "fl_lt x y = fl_gt y x"

text \<open>\<open>x == y\<close> on doubles: NaN equals nothing, itself included.\<close>

definition fl_eq :: "fl \<Rightarrow> fl \<Rightarrow> bool" where
  "fl_eq x y = (x \<noteq> NaN \<and> y \<noteq> NaN \<and> x = y)"

definition fl_le :: "fl \<Rightarrow> fl \<Rightarrow> bool" where
  "fl_le x y = (fl_lt x y \<or> fl_eq x y)"

fun fl_add :: "fl \<Rightarrow> fl \<Rightarrow> fl" where
  "fl_add NaN y = NaN"
| "fl_add x NaN = NaN"
| "fl_add (Fin a) (Fin b) = Fin (a + b)"
| "fl_add (Fin a) y = y"
| "fl_add x (Fin b) = x"
| "fl_add PInf PInf = PInf"
| "fl_add NInf NInf = NInf"
| "fl_add PInf NInf = NaN"
| "fl_add NInf PInf = NaN"

text \<open>
  \<open>x / y\<close> on numpy doubles: a zero divisor gives an infinity of the sign of the dividend,
  and NaN for \<open>0 / 0\<close>; nothing is raised.
\<close>

fun fl_div :: "fl \<Rightarrow> fl \<Rightarrow> fl" where
  "fl_div NaN y = NaN"
| "fl_div x NaN = NaN"
| "fl_div (Fin a) (Fin b) =
     (if b = 0 then (if a = 0 then NaN else if 0 < a then PInf else NInf) else Fin (a / b))"
| "fl_div (Fin a) y = Fin 0"
| "fl_div PInf (Fin b) = (if 0 \<le> b then PInf else NInf)"
| "fl_div NInf (Fin b) = (if 0 \<le> b then NInf else PInf)"
| "fl_div x y = NaN"

text \<open>\<open>np.log2\<close>: minus infinity at zero, NaN below zero; nothing is raised.\<close>

fun fl_log2 :: "fl \<Rightarrow> fl" where
  "fl_log2 NaN = NaN"
| "fl_log2 PInf = PInf"
| "fl_log2 NInf = NaN"
| "fl_log2 (Fin a) = (if 0 < a then Fin (log 2 a) else if a = 0 then NInf else NaN)"

text \<open>
  \<open>int(x)\<close> of a numpy double truncates towards zero; it raises ValueError on NaN and
  OverflowError on an infinity.
\<close>

fun py_int :: "fl \<Rightarrow> py_error + int" where
  "py_int NaN = Inl ValueError"
| "py_int PInf = Inl OverflowError"
| "py_int NInf = Inl OverflowError"
| "py_int (Fin a) = Inr (if 0 \<le> a then \<lfloor>a\<rfloor> else \<lceil>a\<rceil>)"

text \<open>\<open>a / b\<close> on two Python ints: true division, ZeroDivisionError when \<open>b\<close> is 0.\<close>

definition py_truediv :: "nat \<Rightarrow> nat \<Rightarrow> py_error + real" where
  "py_truediv a b = (if b = 0 then Inl ZeroDivisionError else Inr (real a / real b))"

section \<open>Loops and tables\<close>

text \<open>A \<open>for\<close> loop whose body may raise: the first exception ends the loop.\<close>

fun for_each :: "('a \<Rightarrow> 's \<Rightarrow> py_error + 's) \<Rightarrow> 'a list \<Rightarrow> 's \<Rightarrow> py_error + 's" where
  "for_each body [] s = Inr s"
| "for_each body (x # xs) s =
     (case body x s of Inl e \<Rightarrow> Inl e | Inr s' \<Rightarrow> for_each body xs s')"

text \<open>
  A pandas DataFrame of doubles: row labels, column labels (each unique) and the cells.
  Result tables are indexed by the interaction's row label (a number), the expression
  matrix by gene identifier.
  \<open>df.at[i, c]\<close> raises KeyError on a missing label when read; when written it
  enlarges the table, the new cells being NaN.
\<close>

record 'r dataframe =
  index :: "'r list"
  columns :: "string list"
  cells :: "'r \<times> string \<Rightarrow> fl"

definition has_cell :: "'r dataframe \<Rightarrow> 'r \<Rightarrow> string \<Rightarrow> bool" where
  "has_cell df i c = (i \<in> set (index df) \<and> c \<in> set (columns df))"

definition at_get :: "'r dataframe \<Rightarrow> 'r \<Rightarrow> string \<Rightarrow> py_error + fl" where
  "at_get df i c = (if has_cell df i c then Inr (cells df (i, c)) else Inl KeyError)"

definition at_set :: "'r dataframe \<Rightarrow> 'r \<Rightarrow> string \<Rightarrow> fl \<Rightarrow> 'r dataframe" where
  "at_set df i c v =
     \<lparr> index = (if i \<in> set (index df) then index df else index df @ [i]),
       columns = (if c \<in> set (columns df) then columns df else columns df @ [c]),
       cells = (\<lambda>k. if k = (i, c) then v
                     else if has_cell df (fst k) (snd k) then cells df k else NaN) \<rparr>"

section \<open>get_significant_means\<close>

definition min_significant_mean :: fl where
  "min_significant_mean = Fin (5 / 100)"

definition get_significant_means ::
  "nat dataframe \<Rightarrow> nat dataframe \<Rightarrow> py_error + nat dataframe" where
  "get_significant_means real_mean_analysis result_percent =
     for_each (\<lambda>idx.
       for_each (\<lambda>cluster_interaction significant_means.
         case at_get result_percent idx cluster_interaction of
           Inl e \<Rightarrow> Inl e
         | Inr p \<Rightarrow>
             Inr (if fl_gt p min_significant_mean
                  then at_set significant_means idx cluster_interaction NaN
                  else significant_means))
         (columns result_percent))
       (index real_mean_analysis) real_mean_analysis"

section \<open>Interactions and cluster pairs\<close>

text \<open>
  A row of the interactions table, as \<open>iterrows\<close> yields it: its index label and its
  named entries (\<open>ensembl_1\<close>, \<open>ensembl_2\<close>, ...); a missing field raises KeyError.
\<close>

record interaction =
  idx :: nat
  entries :: "string \<rightharpoonup> string"

text \<open>The column key \<open>'{}_{}'.format(a, b)\<close> of a cluster pair.\<close>

definition pair_key :: "string \<times> string \<Rightarrow> string" where
  "pair_key cluster_interaction = fst cluster_interaction @ ''_'' @ snd cluster_interaction"

definition default_suffixes :: "string \<times> string" where
  "default_suffixes = (''_1'', ''_2'')"

text \<open>A pandas Series indexed by gene: label and value, in order.\<close>

type_synonym series = "(string \<times> fl) list"

definition series_get :: "(string \<times> 'v) list \<Rightarrow> string \<Rightarrow> py_error + 'v" where
  "series_get s g = (case map_of s g of None \<Rightarrow> Inl KeyError | Some v \<Rightarrow> Inr v)"

definition dict_get :: "('k \<rightharpoonup> 'v) \<Rightarrow> 'k \<Rightarrow> py_error + 'v" where
  "dict_get d k = (case d k of None \<Rightarrow> Inl KeyError | Some v \<Rightarrow> Inr v)"

section \<open>cluster_interaction_mean and mean_analysis\<close>

definition cluster_interaction_mean ::
  "string \<times> string \<Rightarrow> interaction \<Rightarrow> (string \<rightharpoonup> series) \<Rightarrow> string \<times> string
   \<Rightarrow> py_error + fl" where
  "cluster_interaction_mean cluster_interaction interaction clusters_means suffixes =
     (case dict_get clusters_means (fst cluster_interaction) of Inl e \<Rightarrow> Inl e
      | Inr means_cluster_receptors \<Rightarrow>
      case dict_get clusters_means (snd cluster_interaction) of Inl e \<Rightarrow> Inl e
      | Inr means_cluster_ligands \<Rightarrow>
      case dict_get (entries interaction) (''ensembl'' @ fst suffixes) of Inl e \<Rightarrow> Inl e
      | Inr gene_1 \<Rightarrow>
      case series_get means_cluster_receptors gene_1 of Inl e \<Rightarrow> Inl e
      | Inr mean_receptor \<Rightarrow>
      case dict_get (entries interaction) (''ensembl'' @ snd suffixes) of Inl e \<Rightarrow> Inl e
      | Inr gene_2 \<Rightarrow>
      case series_get means_cluster_ligands gene_2 of Inl e \<Rightarrow> Inl e
      | Inr mean_ligand \<Rightarrow>
      Inr (fl_div (fl_add mean_receptor mean_ligand) (Fin 2)))"

definition mean_analysis ::
  "interaction list \<Rightarrow> (string \<rightharpoonup> series) \<Rightarrow> (string \<times> string) list \<Rightarrow> nat dataframe
   \<Rightarrow> string \<times> string \<Rightarrow> py_error + nat dataframe" where
  "mean_analysis interactions clusters_means cluster_interactions base_result suffixes =
     for_each (\<lambda>interaction.
       for_each (\<lambda>cluster_interaction result.
         case cluster_interaction_mean cluster_interaction interaction clusters_means suffixes of
           Inl e \<Rightarrow> Inl e
         | Inr interaction_mean \<Rightarrow>
             Inr (at_set result (idx interaction) (pair_key cluster_interaction) interaction_mean))
         cluster_interactions)
       interactions base_result"

section \<open>build_percent_result\<close>

text \<open>The shuffled means of one cell, read from each shuffled table in turn.\<close>

definition shuffled_means :: "nat dataframe list \<Rightarrow> nat \<Rightarrow> string \<Rightarrow> py_error + fl list" where
  "shuffled_means statistical_mean_analysis i c =
     for_each (\<lambda>statistical_mean mean_per_pair.
       case at_get statistical_mean i c of Inl e \<Rightarrow> Inl e
       | Inr mean \<Rightarrow> Inr (mean_per_pair @ [mean]))
       statistical_mean_analysis []"

definition two_tails :: "nat \<Rightarrow> nat \<Rightarrow> py_error + fl" where
  "two_tails shuffled_bigger_smaller n =
     (case py_truediv shuffled_bigger_smaller n of Inl e \<Rightarrow> Inl e
      | Inr result_percent \<Rightarrow> Inr (Fin (result_percent * 2)))"

text \<open>
  The \<open>else\<close> branch of the loop body, once the shuffled means of the cell are read.
  \<open>result_percent\<close> is the local variable as the previous iterations left it: \<open>None\<close>
  while it is unbound. When the real mean is neither above nor below zero no branch assigns
  it, and the statement after the branches reads it.
\<close>

definition tested_percent :: "fl \<Rightarrow> fl list \<Rightarrow> fl option \<Rightarrow> py_error + fl" where
  "tested_percent real_mean means result_percent =
     (let mean_per_pair = filter (\<lambda>x. \<not> isnan x) means in
      if fl_gt real_mean (Fin 0) then
        two_tails (length (filter (\<lambda>x. fl_gt x real_mean) mean_per_pair)) (length mean_per_pair)
      else if fl_lt real_mean (Fin 0) then
        two_tails (length (filter (\<lambda>x. fl_lt x real_mean) mean_per_pair)) (length mean_per_pair)
      else (case result_percent of None \<Rightarrow> Inl UnboundLocalError | Some v \<Rightarrow> Inr v))"

text \<open>One pass of the loop body: the value written to the cell, also the new \<open>result_percent\<close>.\<close>

definition percent_cell ::
  "nat dataframe \<Rightarrow> nat dataframe \<Rightarrow> nat dataframe list \<Rightarrow> nat \<Rightarrow> string \<Rightarrow> fl option
   \<Rightarrow> py_error + fl" where
  "percent_cell real_mean_analysis real_perecents_analysis statistical_mean_analysis i c result_percent =
     (case at_get real_mean_analysis i c of Inl e \<Rightarrow> Inl e
      | Inr real_mean \<Rightarrow>
      case at_get real_perecents_analysis i c of Inl e \<Rightarrow> Inl e
      | Inr real_percent \<Rightarrow>
      case py_int real_percent of Inl e \<Rightarrow> Inl e
      | Inr flag \<Rightarrow>
      if flag = 0 \<or> fl_eq real_mean (Fin 0) then Inr (Fin 1)
      else
        case shuffled_means statistical_mean_analysis i c of Inl e \<Rightarrow> Inl e
        | Inr means \<Rightarrow> tested_percent real_mean means result_percent)"

definition percent_step ::
  "nat dataframe \<Rightarrow> nat dataframe \<Rightarrow> nat dataframe list \<Rightarrow> interaction \<Rightarrow> string \<times> string
   \<Rightarrow> nat dataframe \<times> fl option \<Rightarrow> py_error + nat dataframe \<times> fl option" where
  "percent_step real_mean_analysis real_perecents_analysis statistical_mean_analysis
       interaction cluster_interaction st =
     (case percent_cell real_mean_analysis real_perecents_analysis statistical_mean_analysis
             (idx interaction) (pair_key cluster_interaction) (snd st) of
        Inl e \<Rightarrow> Inl e
      | Inr result_percent \<Rightarrow>
          Inr (at_set (fst st) (idx interaction) (pair_key cluster_interaction) result_percent,
               Some result_percent))"

definition build_percent_result ::
  "nat dataframe \<Rightarrow> nat dataframe \<Rightarrow> nat dataframe list \<Rightarrow> interaction list
   \<Rightarrow> (string \<times> string) list \<Rightarrow> nat dataframe \<Rightarrow> py_error + nat dataframe" where
  "build_percent_result real_mean_analysis real_perecents_analysis statistical_mean_analysis
       interactions cluster_interactions base_result =
     (case for_each (\<lambda>interaction.
             for_each (percent_step real_mean_analysis real_perecents_analysis
                         statistical_mean_analysis interaction) cluster_interactions)
             interactions (base_result, None) of
        Inl e \<Rightarrow> Inl e
      | Inr st \<Rightarrow> Inr (fst st))"

section \<open>Cell metadata and shuffle_meta\<close>

text \<open>
  The metadata table: one row per cell, with its identifier (the index), its cluster
  (\<open>cell_type\<close>) and its group.
\<close>

record meta_row =
  cell :: string
  cell_type :: string
  group :: string

type_synonym meta = "meta_row list"

text \<open>
  Objects live in a store, addressed by position, so that a copy is a new object and a write
  through one reference is seen through every alias of it.
\<close>

type_synonym store = "meta list"

definition set_cell_type :: "meta \<Rightarrow> nat \<Rightarrow> string \<Rightarrow> meta" where
  "set_cell_type m i t = m[i := (m ! i)\<lparr>cell_type := t\<rparr>]"

text \<open>
  \<open>numpy.random.shuffle\<close> on a sequence of length \<open>n\<close>: for \<open>i\<close> from \<open>n - 1\<close> down
  to 1 it draws \<open>j\<close> in \<open>0..i\<close> and executes \<open>x[i], x[j] = x[j], x[i]\<close>. The generator is
  a parameter: \<open>rng i\<close> is the number drawn at position \<open>i\<close>, reduced to the interval.
  Here \<open>x\<close> is the \<open>cell_type\<close> column of the object at \<open>r\<close>, written in place.
\<close>

definition swap_cell_type :: "(nat \<Rightarrow> nat) \<Rightarrow> nat \<Rightarrow> nat \<Rightarrow> store \<Rightarrow> store" where
  "swap_cell_type rng r i h =
     (let j = rng i mod Suc i;
          x_i = cell_type (h ! r ! i);
          x_j = cell_type (h ! r ! j)
      in h[r := set_cell_type (set_cell_type (h ! r) i x_j) j x_i])"

definition shuffle_cell_type :: "(nat \<Rightarrow> nat) \<Rightarrow> nat \<Rightarrow> store \<Rightarrow> store" where
  "shuffle_cell_type rng r h = fold (swap_cell_type rng r) (rev [1..<length (h ! r)]) h"

text \<open>\<open>meta.copy()\<close> allocates a new object; the shuffle then writes to the copy.\<close>

definition shuffle_meta :: "(nat \<Rightarrow> nat) \<Rightarrow> nat \<Rightarrow> store \<Rightarrow> nat \<times> store" where
  "shuffle_meta rng meta h =
     (let meta_copy = length h;
          h1 = h @ [h ! meta]
      in (meta_copy, shuffle_cell_type rng meta_copy h1))"

section \<open>build_clusters\<close>

text \<open>\<open>drop_duplicates\<close> keeps the first occurrence of each label, in order.\<close>

definition drop_duplicates :: "'a list \<Rightarrow> 'a list" where
  "drop_duplicates xs = fold (\<lambda>x acc. if x \<in> set acc then acc else acc @ [x]) xs []"

text \<open>The index of \<open>meta[(meta['cell_type'] == c) & (meta['group'] == g)]\<close>.\<close>

definition select_cells :: "meta \<Rightarrow> string \<Rightarrow> string \<Rightarrow> string list" where
  "select_cells m cluster_name group_name =
     map cell (filter (\<lambda>r. cell_type r = cluster_name \<and> group r = group_name) m)"

text \<open>
  \<open>counts.loc[:, cells]\<close>: the columns named, in that order. pandas 0.23 raises KeyError
  when none of a non-empty list of labels is a column, and fills a column it does not find
  with NaN otherwise.
\<close>

definition loc_columns :: "'r dataframe \<Rightarrow> string list \<Rightarrow> py_error + 'r dataframe" where
  "loc_columns df cs =
     (if cs \<noteq> [] \<and> (\<forall>c \<in> set cs. c \<notin> set (columns df)) then Inl KeyError
      else Inr \<lparr> index = index df, columns = cs,
                 cells = (\<lambda>k. if snd k \<in> set (columns df) then cells df k else NaN) \<rparr>)"

definition row_values :: "'r dataframe \<Rightarrow> 'r \<Rightarrow> fl list" where
  "row_values df g = map (\<lambda>c. cells df (g, c)) (columns df)"

text \<open>\<open>Series.mean()\<close>: the mean of the entries that are not NaN, NaN when there is none.\<close>

definition series_mean :: "fl list \<Rightarrow> fl" where
  "series_mean xs =
     (let vs = filter (\<lambda>x. \<not> isnan x) xs
      in if vs = [] then NaN else fl_div (foldl fl_add (Fin 0) vs) (Fin (real (length vs))))"

text \<open>\<open>cluster_count.apply(lambda count: count.mean(), axis=1)\<close>: one mean per gene.\<close>

definition row_means :: "string dataframe \<Rightarrow> series" where
  "row_means df = map (\<lambda>g. (g, series_mean (row_values df g))) (index df)"

text \<open>\<open>np.log2(a / b)\<close> on two series over the same genes.\<close>

definition log2_ratio :: "series \<Rightarrow> series \<Rightarrow> series" where
  "log2_ratio a b = map (\<lambda>p. (fst (fst p), fl_log2 (fl_div (snd (fst p)) (snd (snd p))))) (zip a b)"

record clusters =
  names :: "string list"
  groups :: "string list"
  counts :: "string \<times> string \<rightharpoonup> string dataframe"
  means :: "string \<rightharpoonup> series"

text \<open>The inner loop over the groups of one cluster: its sub-matrices and their means.\<close>

definition build_group ::
  "meta \<Rightarrow> string dataframe \<Rightarrow> string \<Rightarrow> string
   \<Rightarrow> (string \<times> string \<rightharpoonup> string dataframe) \<times> (string \<times> string \<rightharpoonup> series)
   \<Rightarrow> py_error + (string \<times> string \<rightharpoonup> string dataframe) \<times> (string \<times> string \<rightharpoonup> series)" where
  "build_group m cnts cluster_name group_name st =
     (case loc_columns cnts (select_cells m cluster_name group_name) of
        Inl e \<Rightarrow> Inl e
      | Inr cluster_count \<Rightarrow>
          Inr ((fst st)((cluster_name, group_name) \<mapsto> cluster_count),
               (snd st)((cluster_name, group_name) \<mapsto> row_means cluster_count)))"

definition build_cluster ::
  "meta \<Rightarrow> string dataframe \<Rightarrow> string list \<Rightarrow> string
   \<Rightarrow> (string \<times> string \<rightharpoonup> string dataframe) \<times> (string \<times> string \<rightharpoonup> series) \<times> (string \<rightharpoonup> series)
   \<Rightarrow> py_error + (string \<times> string \<rightharpoonup> string dataframe) \<times> (string \<times> string \<rightharpoonup> series)
        \<times> (string \<rightharpoonup> series)" where
  "build_cluster m cnts group_names cluster_name st =
     (case for_each (build_group m cnts cluster_name) group_names (fst st, fst (snd st)) of
        Inl e \<Rightarrow> Inl e
      | Inr cm \<Rightarrow>
          case dict_get (snd cm) (cluster_name, ''tumor'') of Inl e \<Rightarrow> Inl e
          | Inr means_tumor \<Rightarrow>
          case dict_get (snd cm) (cluster_name, ''normal'') of Inl e \<Rightarrow> Inl e
          | Inr means_normal \<Rightarrow>
          Inr (fst cm, snd cm, (snd (snd st))(cluster_name \<mapsto> log2_ratio means_tumor means_normal)))"

definition build_clusters :: "meta \<Rightarrow> string dataframe \<Rightarrow> py_error + clusters" where
  "build_clusters m cnts =
     (let cluster_names = drop_duplicates (map cell_type m);
          group_names = drop_duplicates (map group m)
      in case for_each (build_cluster m cnts group_names) cluster_names
                (Map.empty, Map.empty, Map.empty) of
           Inl e \<Rightarrow> Inl e
         | Inr st \<Rightarrow>
             Inr \<lparr> names = cluster_names, groups = group_names,
                   counts = fst st, means = snd (snd st) \<rparr>)"

section \<open>counts_percent and percent_analysis\<close>

text \<open>
  \<open>counts_percent\<close> is annotated for a Series and applies \<open>len\<close> and a boolean mask to its
  argument; \<open>percent_analysis\<close> hands it a DataFrame. On a Series the mask keeps the
  entries above zero. On a DataFrame \<open>counts[counts > 0]\<close> keeps the shape and blanks the
  other cells with NaN, and \<open>len\<close> is the number of rows.
\<close>

datatype pd_object = Series "fl list" | Frame "string dataframe"

fun py_len :: "pd_object \<Rightarrow> nat" where
  "py_len (Series xs) = length xs"
| "py_len (Frame df) = length (index df)"

fun positive_part :: "pd_object \<Rightarrow> pd_object" where
  "positive_part (Series xs) = Series (filter (\<lambda>x. fl_gt x (Fin 0)) xs)"
| "positive_part (Frame df) =
     Frame (df\<lparr>cells := (\<lambda>k. if fl_gt (cells df k) (Fin 0) then cells df k else NaN)\<rparr>)"

definition counts_percent :: "pd_object \<Rightarrow> fl \<Rightarrow> py_error + int" where
  "counts_percent cnts threshold =
     (let total = py_len cnts;
          positive = py_len (positive_part cnts)
      in case py_truediv positive total of
           Inl e \<Rightarrow> Inl e
         | Inr q \<Rightarrow> Inr (if fl_lt (Fin q) threshold then 1 else 0))"

text \<open>
  \<open>counts_x.apply(lambda count: counts_percent(counts_x, threshold), axis=1)\<close>: the function
  applied to each row ignores the row and measures the whole sub-matrix \<open>counts_x\<close>.
  When the sub-matrix has no row or no column, pandas 0.23 does not call the function per
  row: it returns a series of NaN over the rows (\<open>None\<close> below).
\<close>

definition apply_counts_percent ::
  "string dataframe \<Rightarrow> fl \<Rightarrow> py_error + (string \<times> int option) list" where
  "apply_counts_percent counts_x threshold =
     (if index counts_x = [] \<or> columns counts_x = [] then
        Inr (map (\<lambda>g. (g, None)) (index counts_x))
      else
        for_each (\<lambda>g acc.
          case counts_percent (Frame counts_x) threshold of
            Inl e \<Rightarrow> Inl e
          | Inr flag \<Rightarrow> Inr (acc @ [(g, Some flag)]))
          (index counts_x) [])"

text \<open>
  \<open>percent_tumor & percent_normal\<close>: the bitwise and of two integer flags; pandas fills an
  entry where a side is NaN with False.
\<close>

fun flag_and :: "int option \<Rightarrow> int option \<Rightarrow> int" where
  "flag_and (Some a) (Some b) = a AND b"
| "flag_and a b = 0"

definition flags_and ::
  "(string \<times> int option) list \<Rightarrow> (string \<times> int option) list \<Rightarrow> (string \<times> int) list" where
  "flags_and a b = map (\<lambda>p. (fst (fst p), flag_and (snd (fst p)) (snd (snd p)))) (zip a b)"

definition cluster_interaction_percent ::
  "string \<times> string \<Rightarrow> interaction \<Rightarrow> (string \<rightharpoonup> (string \<times> int) list) \<Rightarrow> string \<times> string
   \<Rightarrow> py_error + int" where
  "cluster_interaction_percent cluster_interaction interaction clusters_percents suffixes =
     (case dict_get clusters_percents (fst cluster_interaction) of Inl e \<Rightarrow> Inl e
      | Inr percent_cluster_receptors \<Rightarrow>
      case dict_get clusters_percents (snd cluster_interaction) of Inl e \<Rightarrow> Inl e
      | Inr percent_cluster_ligands \<Rightarrow>
      case dict_get (entries interaction) (''ensembl'' @ fst suffixes) of Inl e \<Rightarrow> Inl e
      | Inr gene_1 \<Rightarrow>
      case series_get percent_cluster_receptors gene_1 of Inl e \<Rightarrow> Inl e
      | Inr percent_receptor \<Rightarrow>
      case dict_get (entries interaction) (''ensembl'' @ snd suffixes) of Inl e \<Rightarrow> Inl e
      | Inr gene_2 \<Rightarrow>
      case series_get percent_cluster_ligands gene_2 of Inl e \<Rightarrow> Inl e
      | Inr percent_ligand \<Rightarrow>
      Inr (if percent_receptor \<noteq> 0 \<or> percent_ligand \<noteq> 0 then 0 else 1))"

text \<open>The first loop of \<open>percent_analysis\<close>: the flags of one cluster.\<close>

definition cluster_percents ::
  "clusters \<Rightarrow> fl \<Rightarrow> string \<Rightarrow> (string \<rightharpoonup> (string \<times> int) list)
   \<Rightarrow> py_error + (string \<rightharpoonup> (string \<times> int) list)" where
  "cluster_percents cl threshold cluster_name percents =
     (case dict_get (counts cl) (cluster_name, ''tumor'') of Inl e \<Rightarrow> Inl e
      | Inr counts_tumor \<Rightarrow>
      case dict_get (counts cl) (cluster_name, ''normal'') of Inl e \<Rightarrow> Inl e
      | Inr counts_normal \<Rightarrow>
      case apply_counts_percent counts_tumor threshold of Inl e \<Rightarrow> Inl e
      | Inr percent_tumor \<Rightarrow>
      case apply_counts_percent counts_normal threshold of Inl e \<Rightarrow> Inl e
      | Inr percent_normal \<Rightarrow>
      Inr (percents(cluster_name \<mapsto> flags_and percent_tumor percent_normal)))"

definition percent_analysis ::
  "clusters \<Rightarrow> fl \<Rightarrow> interaction list \<Rightarrow> (string \<times> string) list \<Rightarrow> nat dataframe
   \<Rightarrow> string \<times> string \<Rightarrow> py_error + nat dataframe" where
  "percent_analysis cl threshold interactions cluster_interactions base_result suffixes =
     (case for_each (cluster_percents cl threshold) (names cl) Map.empty of
        Inl e \<Rightarrow> Inl e
      | Inr percents \<Rightarrow>
          for_each (\<lambda>interaction.
            for_each (\<lambda>cluster_interaction result.
              case cluster_interaction_percent cluster_interaction interaction percents suffixes of
                Inl e \<Rightarrow> Inl e
              | Inr interaction_percent \<Rightarrow>
                  Inr (at_set result (idx interaction) (pair_key cluster_interaction)
                         (Fin (of_int interaction_percent))))
              cluster_interactions)
            interactions base_result)"

section \<open>Vocabulary of the proofs\<close>

text \<open>The body of the two loops of \<open>get_significant_means\<close>, for one cell.\<close>

definition significant_step :: "nat dataframe \<Rightarrow> nat \<Rightarrow> string \<Rightarrow> nat dataframe \<Rightarrow> py_error + nat dataframe" where
  "significant_step result_percent i c sm =
     (case at_get result_percent i c of
           Inl e \<Rightarrow> Inl e
         | Inr p \<Rightarrow>
             Inr (if fl_gt p min_significant_mean
                  then at_set sm i c NaN
                  else sm))"

text \<open>
  What holds of the table under construction: it keeps the cells of the real-mean table,
  and a cell differs from the real mean only by being NaN under a p-value above the cutoff.
\<close>

definition significant_inv :: "nat dataframe \<Rightarrow> nat dataframe \<Rightarrow> nat dataframe \<Rightarrow> bool" where
  "significant_inv rma pct sm =
     (\<forall>i c. has_cell rma i c \<longrightarrow>
        has_cell sm i c \<and>
        (cells sm (i, c) = cells rma (i, c) \<or>
         (cells sm (i, c) = NaN \<and> fl_gt (cells pct (i, c)) min_significant_mean)))"

text \<open>The cell of the result table that one pass of the two nested loops writes.\<close>

definition cell_key :: "interaction \<times> string \<times> string \<Rightarrow> nat \<times> string" where
  "cell_key p = (idx (fst p), pair_key (snd p))"

text \<open>The body of the two loops of \<open>mean_analysis\<close>, for one cell.\<close>

definition mean_step ::
  "(string \<rightharpoonup> series) \<Rightarrow> string \<times> string \<Rightarrow> interaction \<Rightarrow> string \<times> string \<Rightarrow> nat dataframe
   \<Rightarrow> py_error + nat dataframe" where
  "mean_step cm suffixes x ci result =
     (case cluster_interaction_mean ci x cm suffixes of
        Inl e \<Rightarrow> Inl e
      | Inr interaction_mean \<Rightarrow> Inr (at_set result (idx x) (pair_key ci) interaction_mean))"

text \<open>
  The differential means of a cluster as \<open>build_clusters\<close> computes them: the log2 ratio of
  the per-gene means over the tumor cells and over the normal cells of the cluster.
\<close>

definition de_means_of :: "meta \<Rightarrow> string dataframe \<Rightarrow> string \<Rightarrow> series option" where
  "de_means_of m cnts c =
     (case loc_columns cnts (select_cells m c ''tumor'') of Inl e \<Rightarrow> None
      | Inr t \<Rightarrow>
          (case loc_columns cnts (select_cells m c ''normal'') of Inl e \<Rightarrow> None
           | Inr n \<Rightarrow> Some (log2_ratio (row_means t) (row_means n))))"

text \<open>
  Two stores that differ at most in the object at \<open>r\<close>, and there only by a permutation of
  the \<open>cell_type\<close> column.
\<close>

definition same_but_types :: "nat \<Rightarrow> store \<Rightarrow> store \<Rightarrow> bool" where
  "same_but_types r h h' =
     (length h' = length h \<and> (\<forall>k. k \<noteq> r \<longrightarrow> h' ! k = h ! k) \<and>
      map cell (h' ! r) = map cell (h ! r) \<and> map group (h' ! r) = map group (h ! r) \<and>
      mset (map cell_type (h' ! r)) = mset (map cell_type (h ! r)))"

section \<open>Example inputs\<close>

text \<open>A table given by its labels and a list of its cells; a cell not listed is NaN.\<close>

definition table :: "'r list \<Rightarrow> string list \<Rightarrow> (('r \<times> string) \<times> fl) list \<Rightarrow> 'r dataframe" where
  "table rows cols vs =
     \<lparr> index = rows, columns = cols,
       cells = (\<lambda>k. case map_of vs k of None \<Rightarrow> NaN | Some v \<Rightarrow> v) \<rparr>"

definition ex_real_mean :: "nat dataframe" where
  "ex_real_mean = table [1, 2] [''cluster1'', ''cluster'']
     [((1, ''cluster1''), Fin (1 / 10)), ((1, ''cluster''), Fin 2),
      ((2, ''cluster1''), Fin 2), ((2, ''cluster''), Fin (2 / 10))]"

definition ex_result_percent :: "nat dataframe" where
  "ex_result_percent = table [1, 2] [''cluster1'', ''cluster'']
     [((1, ''cluster1''), Fin 0), ((1, ''cluster''), Fin 1),
      ((2, ''cluster1''), Fin (4 / 100)), ((2, ''cluster''), Fin (62 / 100))]"

text \<open>
  One interaction over two clusters: the real means and flags of its four cluster pairs and
  two shuffled tables; then a higher real mean for the first pair, and a variant in which
  the second pair has an undefined real mean and undefined shuffled means.
\<close>

definition ex_interaction :: interaction where
  "ex_interaction = \<lparr> idx = 1, entries = [''ensembl_1'' \<mapsto> ''g1'', ''ensembl_2'' \<mapsto> ''g2''] \<rparr>"

definition ex_pairs :: "(string \<times> string) list" where
  "ex_pairs = [(''c1'', ''c1''), (''c1'', ''c2''), (''c2'', ''c1''), (''c2'', ''c2'')]"

definition ex_columns :: "string list" where
  "ex_columns = [''c1_c1'', ''c1_c2'', ''c2_c1'', ''c2_c2'']"

definition ex_base :: "nat dataframe" where
  "ex_base = table [1] ex_columns []"

definition ex_mean :: "nat dataframe" where
  "ex_mean = table [1] ex_columns
     [((1, ''c1_c1''), Fin (5 / 10)), ((1, ''c1_c2''), Fin (4 / 10)),
      ((1, ''c2_c1''), Fin (- (3 / 10))), ((1, ''c2_c2''), Fin (7 / 10))]"

definition ex_flag :: "nat dataframe" where
  "ex_flag = table [1] ex_columns
     [((1, ''c1_c1''), Fin 1), ((1, ''c1_c2''), Fin 1),
      ((1, ''c2_c1''), Fin 1), ((1, ''c2_c2''), Fin 0)]"

definition ex_shuffled :: "nat dataframe list" where
  "ex_shuffled =
     [table [1] ex_columns
        [((1, ''c1_c1''), Fin (6 / 10)), ((1, ''c1_c2''), Fin (6 / 10)),
         ((1, ''c2_c1''), Fin (- (5 / 10))), ((1, ''c2_c2''), Fin (1 / 10))],
      table [1] ex_columns
        [((1, ''c1_c1''), Fin 0), ((1, ''c1_c2''), Fin (5 / 10)),
         ((1, ''c2_c1''), NaN), ((1, ''c2_c2''), Fin (2 / 10))]]"

definition ex_mean_higher :: "nat dataframe" where
  "ex_mean_higher = table [1] ex_columns
     [((1, ''c1_c1''), Fin (7 / 10)), ((1, ''c1_c2''), Fin (4 / 10)),
      ((1, ''c2_c1''), Fin (- (3 / 10))), ((1, ''c2_c2''), Fin (7 / 10))]"

definition ex_mean_nan :: "nat dataframe" where
  "ex_mean_nan = table [1] ex_columns
     [((1, ''c1_c1''), Fin (4 / 10)), ((1, ''c1_c2''), NaN),
      ((1, ''c2_c1''), Fin 0), ((1, ''c2_c2''), Fin 0)]"

definition ex_shuffled_nan :: "nat dataframe list" where
  "ex_shuffled_nan =
     [table [1] ex_columns
        [((1, ''c1_c1''), Fin (6 / 10)), ((1, ''c1_c2''), NaN),
         ((1, ''c2_c1''), Fin 0), ((1, ''c2_c2''), Fin 0)],
      table [1] ex_columns
        [((1, ''c1_c1''), Fin (5 / 10)), ((1, ''c1_c2''), NaN),
         ((1, ''c2_c1''), Fin 0), ((1, ''c2_c2''), Fin 0)]]"

text \<open>Differential means of two clusters, one of them zero and one undefined.\<close>

definition ex_cluster_means :: "string \<rightharpoonup> series" where
  "ex_cluster_means =
     [''c1'' \<mapsto> [(''g1'', Fin 0), (''g2'', Fin 3)],
      ''c2'' \<mapsto> [(''g1'', NaN), (''g2'', Fin 1)]]"

text \<open>Two genes over three cells.\<close>

definition ex_counts :: "string dataframe" where
  "ex_counts = table [''g1'', ''g2''] [''cell1'', ''cell2'', ''cell3'']
     [((''g1'', ''cell1''), Fin 1), ((''g1'', ''cell2''), Fin 0), ((''g1'', ''cell3''), Fin 2),
      ((''g2'', ''cell1''), Fin 0), ((''g2'', ''cell2''), Fin 2), ((''g2'', ''cell3''), Fin 2)]"

text \<open>One cluster with a tumor cell and a normal cell.\<close>

definition ex_meta_pair :: meta where
  "ex_meta_pair =
     [\<lparr> cell = ''cell1'', cell_type = ''c1'', group = ''tumor'' \<rparr>,
      \<lparr> cell = ''cell2'', cell_type = ''c1'', group = ''normal'' \<rparr>]"

text \<open>Two clusters, each with cells of one group only.\<close>

definition ex_meta_split :: meta where
  "ex_meta_split =
     [\<lparr> cell = ''cell1'', cell_type = ''c1'', group = ''tumor'' \<rparr>,
      \<lparr> cell = ''cell2'', cell_type = ''c2'', group = ''normal'' \<rparr>]"

text \<open>A third group beside the two.\<close>

definition ex_meta_three :: meta where
  "ex_meta_three =
     [\<lparr> cell = ''cell1'', cell_type = ''c1'', group = ''tumor'' \<rparr>,
      \<lparr> cell = ''cell2'', cell_type = ''c1'', group = ''normal'' \<rparr>,
      \<lparr> cell = ''cell3'', cell_type = ''c1'', group = ''other'' \<rparr>]"

definition ex_meta_case :: meta where
  "ex_meta_case =
     [\<lparr> cell = ''cell1'', cell_type = ''c1'', group = ''case'' \<rparr>,
      \<lparr> cell = ''cell2'', cell_type = ''c1'', group = ''control'' \<rparr>]"

text \<open>Two genes that no cell of the sub-matrix expresses.\<close>

definition ex_silent :: "string dataframe" where
  "ex_silent = table [''g1'', ''g2''] [''cell1'', ''cell2'']
     [((''g1'', ''cell1''), Fin 0), ((''g1'', ''cell2''), Fin 0),
      ((''g2'', ''cell1''), Fin 0), ((''g2'', ''cell2''), Fin 0)]"

definition ex_silent_clusters :: clusters where
  "ex_silent_clusters =
     \<lparr> names = [''c1''], groups = [''tumor'', ''normal''],
       counts = [(''c1'', ''tumor'') \<mapsto> ex_silent, (''c1'', ''normal'') \<mapsto> ex_silent],
       means = Map.empty \<rparr>"

definition ex_no_groups :: clusters where
  "ex_no_groups = \<lparr> names = [''c1''], groups = [], counts = Map.empty, means = Map.empty \<rparr>"

text \<open>A generator that always draws 0.\<close>

definition ex_rng :: "nat \<Rightarrow> nat" where
  "ex_rng i = 0"

section \<open>Loops and tables: lemmas\<close>

lemma for_each_append:
  "for_each body (xs @ ys) s =
     (case for_each body xs s of Inl e \<Rightarrow> Inl e | Inr s' \<Rightarrow> for_each body ys s')"
  by (induction xs arbitrary: s) (auto split: sum.splits)

lemma for_each_product:
  "for_each (\<lambda>x. for_each (body x) ys) xs s =
   for_each (\<lambda>p. body (fst p) (snd p)) (List.product xs ys) s"
proof (induction xs arbitrary: s)
  case Nil
  then show ?case by simp
next
  case (Cons x xs)
  have inner: "for_each (\<lambda>p. body (fst p) (snd p)) (map (Pair x) ys) t = for_each (body x) ys t" for t
    by (induction ys arbitrary: t) (auto split: sum.splits)
  show ?case
    by (simp add: for_each_append inner Cons.IH cong: sum.case_cong)
qed

lemma for_each_total:
  assumes "I s"
    and "\<And>x t. x \<in> set xs \<Longrightarrow> I t \<Longrightarrow> \<exists>t'. body x t = Inr t' \<and> I t'"
  shows "\<exists>s'. for_each body xs s = Inr s' \<and> I s'"
  using assms
proof (induction xs arbitrary: s)
  case Nil
  then show ?case by simp
next
  case (Cons x xs)
  from Cons.prems obtain t where t: "body x s = Inr t" "I t" by (meson list.set_intros(1))
  from Cons.IH [OF t(2)] Cons.prems(2) obtain s' where "for_each body xs t = Inr s'" "I s'"
    by (meson list.set_intros(2))
  with t show ?case by simp
qed

lemma for_each_invariant:
  assumes "for_each body xs s = Inr s'" and "I s"
    and "\<And>x t t'. x \<in> set xs \<Longrightarrow> I t \<Longrightarrow> body x t = Inr t' \<Longrightarrow> I t'"
  shows "I s'"
  using assms
proof (induction xs arbitrary: s)
  case Nil
  then show ?case by simp
next
  case (Cons x xs)
  from Cons.prems(1) obtain t where t: "body x s = Inr t" "for_each body xs t = Inr s'"
    by (auto split: sum.splits)
  have "I t" using Cons.prems(2,3) t(1) by (meson list.set_intros(1))
  then show ?case using Cons.IH [OF t(2)] Cons.prems(3) by (meson list.set_intros(2))
qed

lemma for_each_establish:
  assumes run: "for_each body (xs @ k # ys) s = Inr s'"
    and est: "\<And>t t'. body k t = Inr t' \<Longrightarrow> Q t'"
    and pres: "\<And>k' t t'. k' \<in> set ys \<Longrightarrow> Q t \<Longrightarrow> body k' t = Inr t' \<Longrightarrow> Q t'"
  shows "Q s'"
proof -
  from run obtain t1 where t1: "for_each body xs s = Inr t1" "for_each body (k # ys) t1 = Inr s'"
    by (auto simp: for_each_append split: sum.splits)
  from t1(2) obtain t2 where t2: "body k t1 = Inr t2" "for_each body ys t2 = Inr s'"
    by (auto split: sum.splits)
  have "Q t2" using est t2(1) .
  then show ?thesis using for_each_invariant [OF t2(2), of Q] pres by blast
qed

lemma at_get_at_set_same: "at_get (at_set df i c v) i c = Inr v"
  by (simp add: at_get_def at_set_def has_cell_def)

lemma has_cell_at_set: "has_cell df i c \<Longrightarrow> has_cell (at_set df i' c' v) i c"
  by (auto simp: at_set_def has_cell_def)

lemma at_get_at_set_other:
  "(i', c') \<noteq> (i, c) \<Longrightarrow> at_get df i c = Inr x \<Longrightarrow> at_get (at_set df i' c' v) i c = Inr x"
  by (auto simp: at_get_def at_set_def has_cell_def split: if_splits)

section \<open>get_significant_means: the cells of the result\<close>

lemma get_significant_means_flat:
  "get_significant_means rma pct =
     for_each (\<lambda>p. significant_step pct (fst p) (snd p))
       (List.product (index rma) (columns pct)) rma"
  unfolding get_significant_means_def significant_step_def
  by (rule for_each_product)

lemma significant_step_inv:
  assumes "significant_inv rma pct sm" and "has_cell pct i c"
  shows "\<exists>sm'. significant_step pct i c sm = Inr sm' \<and> significant_inv rma pct sm'"
proof (cases "fl_gt (cells pct (i, c)) min_significant_mean")
  case True
  then have eq: "significant_step pct i c sm = Inr (at_set sm i c NaN)"
    using assms(2) by (simp add: significant_step_def at_get_def)
  have "significant_inv rma pct (at_set sm i c NaN)"
    unfolding significant_inv_def
  proof (intro allI impI)
    fix i' c' assume h: "has_cell rma i' c'"
    with assms(1) have old: "has_cell sm i' c'"
      "cells sm (i', c') = cells rma (i', c') \<or>
         (cells sm (i', c') = NaN \<and> fl_gt (cells pct (i', c')) min_significant_mean)"
      by (auto simp: significant_inv_def)
    show "has_cell (at_set sm i c NaN) i' c' \<and>
        (cells (at_set sm i c NaN) (i', c') = cells rma (i', c') \<or>
         (cells (at_set sm i c NaN) (i', c') = NaN \<and> fl_gt (cells pct (i', c')) min_significant_mean))"
      using old True by (auto simp: at_set_def has_cell_def split: if_splits)
  qed
  with eq show ?thesis by simp
next
  case False
  then have "significant_step pct i c sm = Inr sm"
    using assms(2) by (simp add: significant_step_def at_get_def)
  with assms(1) show ?thesis by simp
qed

lemma significant_step_nan:
  assumes "significant_step pct i' c' sm = Inr sm'" and "cells sm (i, c) = NaN"
  shows "cells sm' (i, c) = NaN"
  using assms by (auto simp: significant_step_def at_set_def split: sum.splits if_splits)

lemma significant_step_writes:
  assumes "significant_step pct i c sm = Inr sm'" and "has_cell pct i c"
    and "fl_gt (cells pct (i, c)) min_significant_mean"
  shows "cells sm' (i, c) = NaN"
  using assms by (auto simp: significant_step_def at_get_def at_set_def split: sum.splits if_splits)

text \<open>
  C6. When every row of the real-mean table is a row of the p-value table,
  \<open>get_significant_means\<close> returns a table in which every cell of the real-mean table
  that has a p-value column is NaN when its p-value is strictly greater than the cutoff
  0.05, and holds the real mean unchanged otherwise.
\<close>

theorem get_significant_means_cells:
  assumes sub: "set (index real_mean_analysis) \<subseteq> set (index result_percent)"
  shows "\<exists>significant_means.
           get_significant_means real_mean_analysis result_percent = Inr significant_means \<and>
           (\<forall>i c. has_cell real_mean_analysis i c \<and> c \<in> set (columns result_percent) \<longrightarrow>
              at_get significant_means i c =
                Inr (if fl_gt (cells result_percent (i, c)) min_significant_mean then NaN
                     else cells real_mean_analysis (i, c)))"
proof -
  let ?real = real_mean_analysis and ?pct = result_percent
  let ?ks = "List.product (index ?real) (columns ?pct)"
  let ?body = "\<lambda>p. significant_step ?pct (fst p) (snd p)"
  have cell: "has_cell ?pct (fst k) (snd k)" if "k \<in> set ?ks" for k
    using that sub by (auto simp: has_cell_def)
  have init: "significant_inv ?real ?pct ?real"
    by (simp add: significant_inv_def)
  obtain sm where run: "for_each ?body ?ks ?real = Inr sm" and inv: "significant_inv ?real ?pct sm"
    using for_each_total [of "significant_inv ?real ?pct" ?real ?ks ?body, OF init]
      significant_step_inv cell by blast
  have "at_get sm i c = Inr (if fl_gt (cells ?pct (i, c)) min_significant_mean then NaN
                              else cells ?real (i, c))"
    if h: "has_cell ?real i c" and c: "c \<in> set (columns ?pct)" for i c
  proof -
    from inv h have hs: "has_cell sm i c"
      and alt: "cells sm (i, c) = cells ?real (i, c) \<or>
         (cells sm (i, c) = NaN \<and> fl_gt (cells ?pct (i, c)) min_significant_mean)"
      by (auto simp: significant_inv_def)
    show ?thesis
    proof (cases "fl_gt (cells ?pct (i, c)) min_significant_mean")
      case True
      from h c have "(i, c) \<in> set ?ks" by (auto simp: has_cell_def)
      then obtain xs ys where split: "?ks = xs @ (i, c) # ys" by (meson split_list)
      have "cells sm (i, c) = NaN"
      proof (rule for_each_establish [where Q = "\<lambda>t. cells t (i, c) = NaN" and body = ?body
            and xs = xs and k = "(i, c)" and ys = ys and s = ?real])
        show "for_each ?body (xs @ (i, c) # ys) ?real = Inr sm" using run split by simp
      next
        fix t t' assume "?body (i, c) t = Inr t'"
        then show "cells t' (i, c) = NaN"
          using significant_step_writes [of ?pct i c t t'] cell [of "(i, c)"] True
            \<open>(i, c) \<in> set ?ks\<close> by simp
      next
        fix k' t t' assume "cells t (i, c) = NaN" "?body k' t = Inr t'"
        then show "cells t' (i, c) = NaN" using significant_step_nan by blast
      qed
      with hs True show ?thesis by (simp add: at_get_def)
    next
      case False
      with alt hs show ?thesis by (auto simp: at_get_def)
    qed
  qed
  with run show ?thesis by (auto simp: get_significant_means_flat)
qed

theorem get_significant_means_cells_witness:
  "\<exists>significant_means.
     get_significant_means ex_real_mean ex_result_percent = Inr significant_means \<and>
     at_get significant_means 1 ''cluster1'' = Inr (Fin (1 / 10)) \<and>
     at_get significant_means 1 ''cluster'' = Inr NaN \<and>
     at_get significant_means 2 ''cluster1'' = Inr (Fin 2) \<and>
     at_get significant_means 2 ''cluster'' = Inr NaN"
proof -
  have "set (index ex_real_mean) \<subseteq> set (index ex_result_percent)"
    by (simp add: ex_real_mean_def ex_result_percent_def table_def)
  from get_significant_means_cells [OF this] obtain sm where
    run: "get_significant_means ex_real_mean ex_result_percent = Inr sm" and
    cell: "\<And>i c. has_cell ex_real_mean i c \<and> c \<in> set (columns ex_result_percent) \<Longrightarrow>
       at_get sm i c =
         Inr (if fl_gt (cells ex_result_percent (i, c)) min_significant_mean then NaN
              else cells ex_real_mean (i, c))"
    by blast
  have "at_get sm 1 ''cluster1'' = Inr (Fin (1 / 10))"
    using cell [of 1 "''cluster1''"]
    by (simp add: ex_real_mean_def ex_result_percent_def table_def has_cell_def
        min_significant_mean_def)
  moreover have "at_get sm 1 ''cluster'' = Inr NaN"
    using cell [of 1 "''cluster''"]
    by (simp add: ex_real_mean_def ex_result_percent_def table_def has_cell_def
        min_significant_mean_def)
  moreover have "at_get sm 2 ''cluster1'' = Inr (Fin 2)"
    using cell [of 2 "''cluster1''"]
    by (simp add: ex_real_mean_def ex_result_percent_def table_def has_cell_def
        min_significant_mean_def)
  moreover have "at_get sm 2 ''cluster'' = Inr NaN"
    using cell [of 2 "''cluster''"]
    by (simp add: ex_real_mean_def ex_result_percent_def table_def has_cell_def
        min_significant_mean_def)
  ultimately show ?thesis using run by blast
qed

section \<open>build_percent_result: the p-value of a cell\<close>

lemma shuffled_means_acc:
  "for_each (\<lambda>statistical_mean mean_per_pair.
       case at_get statistical_mean i c of Inl e \<Rightarrow> Inl e
       | Inr mean \<Rightarrow> Inr (mean_per_pair @ [mean])) stats acc =
   (if \<forall>t \<in> set stats. has_cell t i c then Inr (acc @ map (\<lambda>t. cells t (i, c)) stats)
    else Inl KeyError)"
  by (induction stats arbitrary: acc) (auto simp: at_get_def)

lemma shuffled_means_eq:
  "shuffled_means stats i c =
   (if \<forall>t \<in> set stats. has_cell t i c then Inr (map (\<lambda>t. cells t (i, c)) stats)
    else Inl KeyError)"
  unfolding shuffled_means_def by (simp add: shuffled_means_acc)

lemma build_percent_result_flat:
  "build_percent_result rma pct stats xs pairs base =
     (case for_each (\<lambda>p. percent_step rma pct stats (fst p) (snd p)) (List.product xs pairs)
             (base, None) of
        Inl e \<Rightarrow> Inl e
      | Inr st \<Rightarrow> Inr (fst st))"
  unfolding build_percent_result_def by (simp add: for_each_product)

lemma product_map:
  "List.product (map f xs) (map g ys) = map (\<lambda>p. (f (fst p), g (snd p))) (List.product xs ys)"
  by (induction xs) (auto simp: comp_def)

lemma distinct_cell_keys:
  assumes "distinct (map idx xs)" and "distinct (map pair_key pairs)"
  shows "distinct (map cell_key (List.product xs pairs))"
proof -
  have "map cell_key (List.product xs pairs) = List.product (map idx xs) (map pair_key pairs)"
    by (simp add: product_map cell_key_def [abs_def])
  then show ?thesis using assms by (simp add: distinct_product)
qed

lemma percent_step_writes:
  assumes "percent_step rma pct stats x ci st = Inr st'"
  shows "\<exists>v. percent_cell rma pct stats (idx x) (pair_key ci) (snd st) = Inr v \<and>
             at_get (fst st') (idx x) (pair_key ci) = Inr v \<and> snd st' = Some v"
  using assms by (auto simp: percent_step_def at_get_at_set_same split: sum.splits)

lemma percent_step_keeps:
  assumes "percent_step rma pct stats x ci st = Inr st'"
    and "(idx x, pair_key ci) \<noteq> (i, c)" and "at_get (fst st) i c = Inr v"
  shows "at_get (fst st') i c = Inr v"
  using assms by (auto simp: percent_step_def at_get_at_set_other split: sum.splits)

lemma build_percent_result_cell:
  assumes run: "build_percent_result rma pct stats xs pairs base = Inr res"
    and dx: "distinct (map idx xs)" and dc: "distinct (map pair_key pairs)"
    and x: "x \<in> set xs" and ci: "ci \<in> set pairs"
  shows "\<exists>prev v. percent_cell rma pct stats (idx x) (pair_key ci) prev = Inr v \<and>
                  at_get res (idx x) (pair_key ci) = Inr v"
proof -
  let ?ks = "List.product xs pairs"
  let ?body = "\<lambda>p. percent_step rma pct stats (fst p) (snd p)"
  let ?Q = "\<lambda>st. \<exists>prev v. percent_cell rma pct stats (idx x) (pair_key ci) prev = Inr v \<and>
                  at_get (fst st) (idx x) (pair_key ci) = Inr v"
  from run obtain st where st: "for_each ?body ?ks (base, None) = Inr st" and res: "res = fst st"
    by (auto simp: build_percent_result_flat split: sum.splits)
  from x ci have "(x, ci) \<in> set ?ks" by simp
  then obtain pre post where split: "?ks = pre @ (x, ci) # post" by (meson split_list)
  have "distinct (map cell_key (pre @ (x, ci) # post))"
    using distinct_cell_keys [OF dx dc] split by simp
  then have other: "cell_key k \<noteq> cell_key (x, ci)" if "k \<in> set post" for k
    using that by (auto simp: image_iff)
  have "?Q st"
  proof (rule for_each_establish [where Q = ?Q and body = ?body and xs = pre
        and k = "(x, ci)" and ys = post and s = "(base, None)"])
    show "for_each ?body (pre @ (x, ci) # post) (base, None) = Inr st" using st split by simp
  next
    fix t t' assume "?body (x, ci) t = Inr t'"
    then show "?Q t'" using percent_step_writes [of rma pct stats x ci t t'] by auto
  next
    fix k' t t' assume k': "k' \<in> set post" and q: "?Q t" and step: "?body k' t = Inr t'"
    from other [OF k'] have "(idx (fst k'), pair_key (snd k')) \<noteq> (idx x, pair_key ci)"
      by (simp add: cell_key_def)
    then show "?Q t'" using q percent_step_keeps [OF step] by blast
  qed
  then show ?thesis using res by simp
qed

lemma percent_cell_Inr:
  assumes "percent_cell rma pct stats i c prev = Inr v"
  shows "has_cell rma i c \<and> has_cell pct i c \<and>
     (\<exists>k. py_int (cells pct (i, c)) = Inr k \<and>
       (if k = 0 \<or> fl_eq (cells rma (i, c)) (Fin 0) then v = Fin 1
        else (\<forall>t \<in> set stats. has_cell t i c) \<and>
             tested_percent (cells rma (i, c)) (map (\<lambda>t. cells t (i, c)) stats) prev = Inr v))"
  using assms
  by (auto simp: percent_cell_def at_get_def shuffled_means_eq split: sum.splits if_splits)

lemma two_tails_Inr:
  "two_tails a n = Inr v \<longleftrightarrow> n \<noteq> 0 \<and> v = Fin (2 * (real a / real n))"
  by (auto simp: two_tails_def py_truediv_def)

lemma two_tails_zero: "two_tails a 0 = Inl ZeroDivisionError"
  by (simp add: two_tails_def py_truediv_def)

lemma fl_gt_irrefl: "\<not> (fl_gt m z \<and> fl_gt z m)"
  by (cases m; cases z) auto

lemma fl_gt_not_eq: "fl_gt m z \<Longrightarrow> \<not> fl_eq m z"
  by (cases m; cases z) (auto simp: fl_eq_def)

lemma fl_gt_trans: "fl_gt a b \<Longrightarrow> fl_gt b c \<Longrightarrow> fl_gt a c"
  by (cases a; cases b; cases c) auto

lemma tested_percent_pos:
  assumes "fl_gt m (Fin 0)"
  shows "tested_percent m ms prev =
           two_tails (length (filter (\<lambda>s. fl_gt s m) (filter (\<lambda>s. \<not> isnan s) ms)))
             (length (filter (\<lambda>s. \<not> isnan s) ms))"
  using assms by (simp add: tested_percent_def Let_def)

lemma tested_percent_neg:
  assumes "fl_lt m (Fin 0)"
  shows "tested_percent m ms prev =
           two_tails (length (filter (\<lambda>s. fl_lt s m) (filter (\<lambda>s. \<not> isnan s) ms)))
             (length (filter (\<lambda>s. \<not> isnan s) ms))"
  using assms fl_gt_irrefl [of m "Fin 0"] by (auto simp: tested_percent_def Let_def fl_lt_def)

lemma tested_percent_nan:
  "tested_percent NaN ms prev = (case prev of None \<Rightarrow> Inl UnboundLocalError | Some v \<Rightarrow> Inr v)"
  by (simp add: tested_percent_def Let_def fl_lt_def)

lemmas ex_defs = ex_interaction_def ex_pairs_def ex_columns_def ex_base_def ex_mean_def ex_flag_def
  ex_shuffled_def table_def pair_key_def

lemmas ex_defs2 = ex_defs ex_mean_higher_def ex_mean_nan_def ex_shuffled_nan_def

lemmas bpr_eval = build_percent_result_def percent_step_def percent_cell_def at_get_def at_set_def
  has_cell_def shuffled_means_def tested_percent_def two_tails_def py_truediv_def isnan_def
  fl_lt_def fl_eq_def

text \<open>
  C1. In the table \<open>build_percent_result\<close> returns, the cell of an interaction and a
  cluster pair is 1 when the real percent flag of the cell is 0 or the real mean is exactly
  0. Otherwise (flag 1), with \<open>valid\<close> the shuffled means of the cell that are not NaN,
  the cell is twice the number of entries of \<open>valid\<close> strictly greater than the real mean
  over the length of \<open>valid\<close> when the real mean is positive, and twice the number of
  entries strictly less than it over that length when the real mean is negative. Nothing caps
  the value: it is the quotient doubled, which exceeds 1 when more than half of \<open>valid\<close>
  is beyond the real mean. Row labels and column keys are distinct, so that no later pass
  writes the cell again.
\<close>

theorem build_percent_result_pvalue:
  assumes run: "build_percent_result rma pct stats xs pairs base = Inr res"
    and dx: "distinct (map idx xs)" and dc: "distinct (map pair_key pairs)"
    and x: "x \<in> set xs" and ci: "ci \<in> set pairs"
    and flag: "real_percent = Fin 0 \<or> real_percent = Fin 1"
    and rp: "real_percent = cells pct (idx x, pair_key ci)"
    and rm: "real_mean = cells rma (idx x, pair_key ci)"
    and va: "valid = filter (\<lambda>s. \<not> isnan s) (map (\<lambda>t. cells t (idx x, pair_key ci)) stats)"
  shows "(real_percent = Fin 0 \<or> fl_eq real_mean (Fin 0) \<longrightarrow>
            at_get res (idx x) (pair_key ci) = Inr (Fin 1)) \<and>
         (real_percent = Fin 1 \<and> fl_gt real_mean (Fin 0) \<longrightarrow>
            valid \<noteq> [] \<and>
            at_get res (idx x) (pair_key ci) =
              Inr (Fin (2 * (real (length (filter (\<lambda>s. fl_gt s real_mean) valid)) /
                             real (length valid))))) \<and>
         (real_percent = Fin 1 \<and> fl_lt real_mean (Fin 0) \<longrightarrow>
            valid \<noteq> [] \<and>
            at_get res (idx x) (pair_key ci) =
              Inr (Fin (2 * (real (length (filter (\<lambda>s. fl_lt s real_mean) valid)) /
                             real (length valid)))))"
proof -
  let ?i = "idx x" and ?c = "pair_key ci"
  from build_percent_result_cell [OF run dx dc x ci] obtain prev v where
    cell: "percent_cell rma pct stats ?i ?c prev = Inr v" and got: "at_get res ?i ?c = Inr v"
    by blast
  from percent_cell_Inr [OF cell] obtain k where
    k: "py_int real_percent = Inr k" and
    v: "if k = 0 \<or> fl_eq real_mean (Fin 0) then v = Fin 1
        else tested_percent real_mean (map (\<lambda>t. cells t (?i, ?c)) stats) prev = Inr v"
    unfolding rp rm by (auto split: if_splits)
  have zero: "at_get res ?i ?c = Inr (Fin 1)" if "real_percent = Fin 0 \<or> fl_eq real_mean (Fin 0)"
    using that k v got by auto
  have pos: "valid \<noteq> [] \<and> at_get res ?i ?c =
      Inr (Fin (2 * (real (length (filter (\<lambda>s. fl_gt s real_mean) valid)) / real (length valid))))"
    if "real_percent = Fin 1" "fl_gt real_mean (Fin 0)"
  proof -
    from that k have "k = 1" by simp
    with v that(2) fl_gt_not_eq [OF that(2)]
    have "two_tails (length (filter (\<lambda>s. fl_gt s real_mean) valid)) (length valid) = Inr v"
      by (simp add: tested_percent_pos va)
    then show ?thesis using got by (simp add: two_tails_Inr)
  qed
  have neg: "valid \<noteq> [] \<and> at_get res ?i ?c =
      Inr (Fin (2 * (real (length (filter (\<lambda>s. fl_lt s real_mean) valid)) / real (length valid))))"
    if "real_percent = Fin 1" "fl_lt real_mean (Fin 0)"
  proof -
    from that k have "k = 1" by simp
    moreover have "\<not> fl_eq real_mean (Fin 0)"
      using that(2) fl_gt_not_eq [of "Fin 0" real_mean] by (auto simp: fl_lt_def fl_eq_def)
    ultimately
    have "two_tails (length (filter (\<lambda>s. fl_lt s real_mean) valid)) (length valid) = Inr v"
      using v that(2) by (simp add: tested_percent_neg va)
    then show ?thesis using got by (simp add: two_tails_Inr)
  qed
  from zero pos neg show ?thesis by blast
qed

theorem build_percent_result_pvalue_witness:
  "\<exists>res. build_percent_result ex_mean ex_flag ex_shuffled [ex_interaction] ex_pairs ex_base = Inr res \<and>
     at_get res 1 ''c1_c1'' = Inr (Fin 1) \<and>
     at_get res 1 ''c1_c2'' = Inr (Fin 2) \<and>
     at_get res 1 ''c2_c1'' = Inr (Fin 2) \<and>
     at_get res 1 ''c2_c2'' = Inr (Fin 1)"
proof -
  have "\<exists>res. build_percent_result ex_mean ex_flag ex_shuffled [ex_interaction] ex_pairs ex_base = Inr res"
    by (simp add: ex_defs bpr_eval)
  then obtain res where
    run: "build_percent_result ex_mean ex_flag ex_shuffled [ex_interaction] ex_pairs ex_base = Inr res"
    by blast
  have dx: "distinct (map idx [ex_interaction])" by simp
  have dc: "distinct (map pair_key ex_pairs)" by (simp add: ex_defs)
  note cell = build_percent_result_pvalue [OF run dx dc _ _ _ refl refl refl,
      where x = ex_interaction]
  have "at_get res 1 ''c1_c1'' = Inr (Fin 1)"
    using cell [of "(''c1'', ''c1'')"] by (simp add: ex_defs isnan_def)
  moreover have "at_get res 1 ''c1_c2'' = Inr (Fin 2)"
    using cell [of "(''c1'', ''c2'')"] by (simp add: ex_defs isnan_def)
  moreover have "at_get res 1 ''c2_c1'' = Inr (Fin 2)"
    using cell [of "(''c2'', ''c1'')"] by (simp add: ex_defs isnan_def fl_lt_def)
  moreover have "at_get res 1 ''c2_c2'' = Inr (Fin 1)"
    using cell [of "(''c2'', ''c2'')"] by (simp add: ex_defs isnan_def)
  ultimately show ?thesis using run by blast
qed

section \<open>build_percent_result: an empty null distribution\<close>

lemma for_each_fails:
  assumes "k \<in> set ks" and "\<And>t. \<exists>e. body k t = Inl e"
  shows "\<exists>e. for_each body ks s = Inl e"
  using assms(1)
proof (induction ks arbitrary: s)
  case Nil
  then show ?case by simp
next
  case (Cons a ks)
  show ?case
  proof (cases "body a s")
    case (Inl e)
    then show ?thesis by simp
  next
    case (Inr t)
    show ?thesis
    proof (cases "a = k")
      case True
      with assms(2) [of s] Inr show ?thesis by simp
    next
      case False
      with Cons.prems have "k \<in> set ks" by simp
      from Cons.IH [OF this] Inr show ?thesis by simp
    qed
  qed
qed

lemma percent_cell_tested:
  assumes "has_cell rma i c" and "has_cell pct i c" and "py_int (cells pct (i, c)) = Inr k"
    and "k \<noteq> 0" and "\<not> fl_eq (cells rma (i, c)) (Fin 0)" and "\<forall>t \<in> set stats. has_cell t i c"
  shows "percent_cell rma pct stats i c prev =
           tested_percent (cells rma (i, c)) (map (\<lambda>t. cells t (i, c)) stats) prev"
  using assms by (simp add: percent_cell_def at_get_def shuffled_means_eq)

text \<open>
  For a cell with a nonzero flag and a real mean strictly above or strictly below zero, whose
  shuffled means are all NaN, the division by the number of valid shuffled means raises
  ZeroDivisionError, whatever \<open>result_percent\<close> held, and \<open>build_percent_result\<close> returns
  no table.
\<close>

lemma build_percent_result_empty_null:
  assumes x: "x \<in> set xs" and ci: "ci \<in> set pairs"
    and hm: "has_cell rma (idx x) (pair_key ci)" and hp: "has_cell pct (idx x) (pair_key ci)"
    and k: "py_int (cells pct (idx x, pair_key ci)) = Inr k" "k \<noteq> 0"
    and sign: "fl_gt (cells rma (idx x, pair_key ci)) (Fin 0) \<or>
               fl_lt (cells rma (idx x, pair_key ci)) (Fin 0)"
    and nan: "\<forall>t \<in> set stats. has_cell t (idx x) (pair_key ci) \<and> isnan (cells t (idx x, pair_key ci))"
  shows "(\<forall>prev. percent_cell rma pct stats (idx x) (pair_key ci) prev = Inl ZeroDivisionError) \<and>
         (\<exists>e. build_percent_result rma pct stats xs pairs base = Inl e)"
proof -
  let ?i = "idx x" and ?c = "pair_key ci"
  let ?m = "cells rma (?i, ?c)"
  have empty: "filter (\<lambda>s. \<not> isnan s) (map (\<lambda>t. cells t (?i, ?c)) stats) = []"
    using nan by (simp add: filter_empty_conv)
  have ne: "\<not> fl_eq ?m (Fin 0)"
    using sign fl_gt_not_eq [of ?m "Fin 0"] fl_gt_not_eq [of "Fin 0" ?m]
    by (auto simp: fl_lt_def fl_eq_def)
  have cell: "percent_cell rma pct stats ?i ?c prev = Inl ZeroDivisionError" for prev
  proof -
    have "percent_cell rma pct stats ?i ?c prev =
            tested_percent ?m (map (\<lambda>t. cells t (?i, ?c)) stats) prev"
      using percent_cell_tested [OF hm hp k ne] nan by blast
    also have "\<dots> = Inl ZeroDivisionError"
      using sign by (auto simp: tested_percent_pos tested_percent_neg empty two_tails_zero)
    finally show ?thesis .
  qed
  have "\<exists>e. for_each (\<lambda>p. percent_step rma pct stats (fst p) (snd p)) (List.product xs pairs)
              (base, None) = Inl e"
  proof (rule for_each_fails [where k = "(x, ci)"])
    show "(x, ci) \<in> set (List.product xs pairs)" using x ci by simp
  next
    fix t
    show "\<exists>e. percent_step rma pct stats (fst (x, ci)) (snd (x, ci)) t = Inl e"
      by (simp add: percent_step_def cell)
  qed
  then have "\<exists>e. build_percent_result rma pct stats xs pairs base = Inl e"
    by (auto simp: build_percent_result_flat)
  with cell show ?thesis by blast
qed

lemma build_percent_result_empty_null_example:
  "(\<forall>prev. percent_cell ex_mean ex_flag ex_shuffled_nan 1 ''c1_c2'' prev = Inl ZeroDivisionError) \<and>
   build_percent_result ex_mean ex_flag ex_shuffled_nan [ex_interaction] ex_pairs ex_base
     = Inl ZeroDivisionError"
proof -
  have "(\<forall>prev. percent_cell ex_mean ex_flag ex_shuffled_nan (idx ex_interaction)
            (pair_key (''c1'', ''c2'')) prev = Inl ZeroDivisionError) \<and>
        (\<exists>e. build_percent_result ex_mean ex_flag ex_shuffled_nan [ex_interaction] ex_pairs ex_base
            = Inl e)"
    by (rule build_percent_result_empty_null [where k = 1])
       (simp_all add: ex_defs2 has_cell_def isnan_def)
  moreover have "build_percent_result ex_mean ex_flag ex_shuffled_nan [ex_interaction] ex_pairs ex_base
      = Inl ZeroDivisionError"
    by (simp add: ex_defs2 bpr_eval)
  ultimately show ?thesis by (simp add: ex_defs)
qed

text \<open>
  C2. A cell with a nonzero flag, a nonzero real mean and only NaN shuffled means must make
  \<open>build_percent_result\<close> fail. A real mean that is NaN is nonzero for the test
  \<open>real_mean == 0\<close> as well, and for it no division takes place: below, the second cell has
  flag 1, a NaN real mean and two NaN shuffled means, and \<open>build_percent_result\<close> returns a
  table, in which that cell holds the p-value 2 of the cell before it.
\<close>

theorem build_percent_result_empty_null_silent:
  "cells ex_flag (1, ''c1_c2'') = Fin 1 \<and>
   \<not> fl_eq (cells ex_mean_nan (1, ''c1_c2'')) (Fin 0) \<and>
   shuffled_means ex_shuffled_nan 1 ''c1_c2'' = Inr [NaN, NaN] \<and>
   (\<exists>res. build_percent_result ex_mean_nan ex_flag ex_shuffled_nan [ex_interaction]
            [(''c1'', ''c1''), (''c1'', ''c2'')] ex_base = Inr res \<and>
          at_get res 1 ''c1_c2'' = Inr (Fin 2))"
  by (simp add: ex_defs2 bpr_eval)

section \<open>build_percent_result: monotonicity\<close>

lemma filter_length_mono:
  assumes "\<And>s. P s \<Longrightarrow> Q s"
  shows "length (filter P ys) \<le> length (filter Q ys)"
  using assms by (induction ys) auto

text \<open>
  C7. With the flags and the shuffled tables fixed, take two real-mean tables whose values
  at a cell are \<open>m1\<close> and \<open>m2\<close>, with \<open>0 < m1 < m2\<close>. When \<open>build_percent_result\<close>
  returns a table for each, the p-value of the cell under \<open>m2\<close> is at most the p-value
  under \<open>m1\<close>.
\<close>

theorem build_percent_result_monotone:
  assumes run1: "build_percent_result rma1 pct stats xs pairs base = Inr res1"
    and run2: "build_percent_result rma2 pct stats xs pairs base = Inr res2"
    and dx: "distinct (map idx xs)" and dc: "distinct (map pair_key pairs)"
    and x: "x \<in> set xs" and ci: "ci \<in> set pairs"
    and pos: "fl_gt (cells rma1 (idx x, pair_key ci)) (Fin 0)"
    and less: "fl_lt (cells rma1 (idx x, pair_key ci)) (cells rma2 (idx x, pair_key ci))"
  shows "\<exists>p1 p2. at_get res1 (idx x) (pair_key ci) = Inr (Fin p1) \<and>
                 at_get res2 (idx x) (pair_key ci) = Inr (Fin p2) \<and> p2 \<le> p1"
proof -
  let ?i = "idx x" and ?c = "pair_key ci"
  let ?m1 = "cells rma1 (?i, ?c)" and ?m2 = "cells rma2 (?i, ?c)"
  let ?ms = "map (\<lambda>t. cells t (?i, ?c)) stats"
  let ?valid = "filter (\<lambda>s. \<not> isnan s) ?ms"
  have pos2: "fl_gt ?m2 (Fin 0)" using pos less fl_gt_trans by (auto simp: fl_lt_def)
  from build_percent_result_cell [OF run1 dx dc x ci] obtain prev1 v1 where
    c1: "percent_cell rma1 pct stats ?i ?c prev1 = Inr v1" and g1: "at_get res1 ?i ?c = Inr v1"
    by blast
  from build_percent_result_cell [OF run2 dx dc x ci] obtain prev2 v2 where
    c2: "percent_cell rma2 pct stats ?i ?c prev2 = Inr v2" and g2: "at_get res2 ?i ?c = Inr v2"
    by blast
  from percent_cell_Inr [OF c1] obtain k where k: "py_int (cells pct (?i, ?c)) = Inr k"
    and v1: "if k = 0 then v1 = Fin 1 else tested_percent ?m1 ?ms prev1 = Inr v1"
    using fl_gt_not_eq [OF pos] by (auto split: if_splits)
  from percent_cell_Inr [OF c2] k
  have v2: "if k = 0 then v2 = Fin 1 else tested_percent ?m2 ?ms prev2 = Inr v2"
    using fl_gt_not_eq [OF pos2] by (auto split: if_splits)
  show ?thesis
  proof (cases "k = 0")
    case True
    with v1 v2 g1 g2 show ?thesis by auto
  next
    case False
    with v1 have "two_tails (length (filter (\<lambda>s. fl_gt s ?m1) ?valid)) (length ?valid) = Inr v1"
      using tested_percent_pos [OF pos, of ?ms prev1] by simp
    from two_tails_Inr [THEN iffD1, OF this]
    have t1: "v1 = Fin (2 * (real (length (filter (\<lambda>s. fl_gt s ?m1) ?valid)) / real (length ?valid)))"
      by blast
    from False v2 have "two_tails (length (filter (\<lambda>s. fl_gt s ?m2) ?valid)) (length ?valid) = Inr v2"
      using tested_percent_pos [OF pos2, of ?ms prev2] by simp
    from two_tails_Inr [THEN iffD1, OF this]
    have t2: "v2 = Fin (2 * (real (length (filter (\<lambda>s. fl_gt s ?m2) ?valid)) / real (length ?valid)))"
      by blast
    have "length (filter (\<lambda>s. fl_gt s ?m2) ?valid) \<le> length (filter (\<lambda>s. fl_gt s ?m1) ?valid)"
      by (rule filter_length_mono) (use less fl_gt_trans in \<open>auto simp: fl_lt_def\<close>)
    then have "2 * (real (length (filter (\<lambda>s. fl_gt s ?m2) ?valid)) / real (length ?valid))
             \<le> 2 * (real (length (filter (\<lambda>s. fl_gt s ?m1) ?valid)) / real (length ?valid))"
      by (simp add: divide_right_mono)
    with t1 t2 g1 g2 show ?thesis by blast
  qed
qed

theorem build_percent_result_monotone_witness:
  "\<exists>res1 res2 p1 p2.
     build_percent_result ex_mean ex_flag ex_shuffled [ex_interaction] ex_pairs ex_base = Inr res1 \<and>
     build_percent_result ex_mean_higher ex_flag ex_shuffled [ex_interaction] ex_pairs ex_base = Inr res2 \<and>
     fl_lt (cells ex_mean (1, ''c1_c1'')) (cells ex_mean_higher (1, ''c1_c1'')) \<and>
     at_get res1 1 ''c1_c1'' = Inr (Fin p1) \<and> at_get res2 1 ''c1_c1'' = Inr (Fin p2) \<and> p2 \<le> p1"
proof -
  have "\<exists>res. build_percent_result ex_mean ex_flag ex_shuffled [ex_interaction] ex_pairs ex_base = Inr res"
    by (simp add: ex_defs bpr_eval)
  then obtain res1 where
    run1: "build_percent_result ex_mean ex_flag ex_shuffled [ex_interaction] ex_pairs ex_base = Inr res1"
    by blast
  have "\<exists>res. build_percent_result ex_mean_higher ex_flag ex_shuffled [ex_interaction] ex_pairs ex_base
          = Inr res"
    by (simp add: ex_defs2 bpr_eval)
  then obtain res2 where
    run2: "build_percent_result ex_mean_higher ex_flag ex_shuffled [ex_interaction] ex_pairs ex_base
             = Inr res2"
    by blast
  have dx: "distinct (map idx [ex_interaction])" by simp
  have dc: "distinct (map pair_key ex_pairs)" by (simp add: ex_defs)
  have less: "fl_lt (cells ex_mean (1, ''c1_c1'')) (cells ex_mean_higher (1, ''c1_c1''))"
    by (simp add: ex_defs2 fl_lt_def)
  have "\<exists>p1 p2. at_get res1 (idx ex_interaction) (pair_key (''c1'', ''c1'')) = Inr (Fin p1) \<and>
           at_get res2 (idx ex_interaction) (pair_key (''c1'', ''c1'')) = Inr (Fin p2) \<and> p2 \<le> p1"
    by (rule build_percent_result_monotone [OF run1 run2 dx dc])
       (simp_all add: ex_defs2 fl_lt_def)
  then show ?thesis using run1 run2 less by (simp add: ex_defs)
qed

section \<open>build_percent_result: a real mean that is NaN\<close>

lemma build_percent_result_stale:
  assumes run: "build_percent_result rma pct stats xs pairs base = Inr res"
    and dx: "distinct (map idx xs)" and dc: "distinct (map pair_key pairs)"
    and order: "List.product xs pairs = pre @ k' # (x, ci) # post"
    and stale: "\<And>tbl v. percent_step rma pct stats x ci (tbl, Some v) =
                    Inr (at_set tbl (idx x) (pair_key ci) v, Some v)"
  shows "\<exists>v. at_get res (idx (fst k')) (pair_key (snd k')) = Inr v \<and>
             at_get res (idx x) (pair_key ci) = Inr v"
proof -
  let ?body = "\<lambda>p. percent_step rma pct stats (fst p) (snd p)"
  let ?i = "idx x" and ?c = "pair_key ci"
  let ?i' = "idx (fst k')" and ?c' = "pair_key (snd k')"
  from run obtain st where st: "for_each ?body (List.product xs pairs) (base, None) = Inr st"
    and res: "res = fst st"
    by (auto simp: build_percent_result_flat split: sum.splits)
  have "for_each ?body (pre @ [k'] @ [(x, ci)] @ post) (base, None) = Inr st"
    using st order by simp
  then obtain s1 s2 s3 where s1: "for_each ?body pre (base, None) = Inr s1"
    and s2: "?body k' s1 = Inr s2" and s3: "?body (x, ci) s2 = Inr s3"
    and s4: "for_each ?body post s3 = Inr st"
    by (auto simp: for_each_append split: sum.splits)
  from percent_step_writes [OF s2] obtain v where
    v: "at_get (fst s2) ?i' ?c' = Inr v" "snd s2 = Some v" by blast
  then have s3_eq: "s3 = (at_set (fst s2) ?i ?c v, Some v)"
    using s3 stale [of "fst s2" v] by (cases s2) auto
  have dist: "distinct (map cell_key (pre @ k' # (x, ci) # post))"
    using distinct_cell_keys [OF dx dc] order by simp
  then have ne: "(?i, ?c) \<noteq> (?i', ?c')" by (auto simp: cell_key_def)
  have other: "cell_key k \<noteq> (?i, ?c) \<and> cell_key k \<noteq> (?i', ?c')" if "k \<in> set post" for k
    using that dist by (auto simp: image_iff cell_key_def)
  let ?I = "\<lambda>t. at_get (fst t) ?i' ?c' = Inr v \<and> at_get (fst t) ?i ?c = Inr v"
  have "?I s3"
    using v(1) ne by (simp add: s3_eq at_get_at_set_same at_get_at_set_other)
  moreover have "?I t'" if "k \<in> set post" "?I t" "?body k t = Inr t'" for k t t'
    using other [OF that(1)] that(2) percent_step_keeps [OF that(3)]
    by (simp add: cell_key_def)
  ultimately have "?I st"
    using for_each_invariant [OF s4, of ?I] by blast
  then show ?thesis using res by blast
qed

text \<open>
  C9. Take a cell whose flag is nonzero and whose real mean is NaN (the shuffled tables
  having the cell). None of the branches assigns \<open>result_percent\<close>. When the cell is the
  first one processed, \<open>build_percent_result\<close> fails with UnboundLocalError, as one pass of
  the body does whenever the variable is unbound. When the variable is bound, the pass
  writes its value to the cell and leaves it as it is; after any pass that succeeded the
  variable holds what that pass wrote, so the cell receives the p-value of the cell processed
  just before it, and in the table returned the two cells hold the same value.
\<close>

theorem build_percent_result_nan_mean:
  assumes hm: "has_cell rma (idx x) (pair_key ci)" and hp: "has_cell pct (idx x) (pair_key ci)"
    and nan: "cells rma (idx x, pair_key ci) = NaN"
    and k: "py_int (cells pct (idx x, pair_key ci)) = Inr k" "k \<noteq> 0"
    and hs: "\<forall>t \<in> set stats. has_cell t (idx x) (pair_key ci)"
  shows "build_percent_result rma pct stats (x # xs) (ci # pairs) base = Inl UnboundLocalError \<and>
         (\<forall>tbl. percent_step rma pct stats x ci (tbl, None) = Inl UnboundLocalError) \<and>
         (\<forall>tbl v. percent_step rma pct stats x ci (tbl, Some v) =
                    Inr (at_set tbl (idx x) (pair_key ci) v, Some v)) \<and>
         (\<forall>x' ci' st st'. percent_step rma pct stats x' ci' st = Inr st' \<longrightarrow>
            (\<exists>v. at_get (fst st') (idx x') (pair_key ci') = Inr v \<and>
                 percent_step rma pct stats x ci st' =
                   Inr (at_set (fst st') (idx x) (pair_key ci) v, Some v))) \<and>
         (\<forall>ys qs pre k' post res.
            build_percent_result rma pct stats ys qs base = Inr res \<and>
            distinct (map idx ys) \<and> distinct (map pair_key qs) \<and>
            List.product ys qs = pre @ k' # (x, ci) # post \<longrightarrow>
            (\<exists>v. at_get res (idx (fst k')) (pair_key (snd k')) = Inr v \<and>
                 at_get res (idx x) (pair_key ci) = Inr v))"
proof -
  let ?i = "idx x" and ?c = "pair_key ci"
  have ne: "\<not> fl_eq (cells rma (?i, ?c)) (Fin 0)" by (simp add: nan fl_eq_def)
  have cell: "percent_cell rma pct stats ?i ?c prev =
      (case prev of None \<Rightarrow> Inl UnboundLocalError | Some v \<Rightarrow> Inr v)" for prev
    using percent_cell_tested [OF hm hp k ne hs] by (simp add: nan tested_percent_nan)
  have unbound: "percent_step rma pct stats x ci (tbl, None) = Inl UnboundLocalError" for tbl
    by (simp add: percent_step_def cell)
  have stale: "percent_step rma pct stats x ci (tbl, Some v) = Inr (at_set tbl ?i ?c v, Some v)"
    for tbl v
    by (simp add: percent_step_def cell)
  have first: "build_percent_result rma pct stats (x # xs) (ci # pairs) base = Inl UnboundLocalError"
    by (simp add: build_percent_result_def unbound)
  have after: "\<exists>v. at_get (fst st') (idx x') (pair_key ci') = Inr v \<and>
      percent_step rma pct stats x ci st' = Inr (at_set (fst st') ?i ?c v, Some v)"
    if "percent_step rma pct stats x' ci' st = Inr st'" for x' ci' st st'
  proof -
    from percent_step_writes [OF that] obtain v where
      "at_get (fst st') (idx x') (pair_key ci') = Inr v" "snd st' = Some v" by blast
    then show ?thesis using stale [of "fst st'" v] by (cases st') auto
  qed
  have later: "\<exists>v. at_get res (idx (fst k')) (pair_key (snd k')) = Inr v \<and>
      at_get res ?i ?c = Inr v"
    if "build_percent_result rma pct stats ys qs base = Inr res \<and>
        distinct (map idx ys) \<and> distinct (map pair_key qs) \<and>
        List.product ys qs = pre @ k' # (x, ci) # post" for ys qs pre k' post res
    using that build_percent_result_stale [of rma pct stats ys qs base res pre k' x ci post] stale
    by blast
  from first unbound stale after later show ?thesis by blast
qed

theorem build_percent_result_nan_mean_witness:
  "build_percent_result ex_mean_nan ex_flag ex_shuffled_nan [ex_interaction]
     [(''c1'', ''c2''), (''c2'', ''c2'')] ex_base = Inl UnboundLocalError \<and>
   (\<exists>res. build_percent_result ex_mean_nan ex_flag ex_shuffled_nan [ex_interaction]
            [(''c1'', ''c1''), (''c1'', ''c2'')] ex_base = Inr res \<and>
          at_get res 1 ''c1_c1'' = Inr (Fin 2) \<and> at_get res 1 ''c1_c2'' = Inr (Fin 2))"
proof -
  note nan_mean = build_percent_result_nan_mean [of ex_mean_nan ex_interaction "(''c1'', ''c2'')"
      ex_flag 1 ex_shuffled_nan]
  have hyps: "has_cell ex_mean_nan (idx ex_interaction) (pair_key (''c1'', ''c2''))"
    "has_cell ex_flag (idx ex_interaction) (pair_key (''c1'', ''c2''))"
    "cells ex_mean_nan (idx ex_interaction, pair_key (''c1'', ''c2'')) = NaN"
    "py_int (cells ex_flag (idx ex_interaction, pair_key (''c1'', ''c2''))) = Inr 1"
    "(1::int) \<noteq> 0"
    "\<forall>t \<in> set ex_shuffled_nan. has_cell t (idx ex_interaction) (pair_key (''c1'', ''c2''))"
    by (simp_all add: ex_defs2 has_cell_def)
  note facts = nan_mean [OF hyps, of "[]" "[(''c2'', ''c2'')]" ex_base]
  from facts have first: "build_percent_result ex_mean_nan ex_flag ex_shuffled_nan [ex_interaction]
     [(''c1'', ''c2''), (''c2'', ''c2'')] ex_base = Inl UnboundLocalError"
    by blast
  have "\<exists>res. build_percent_result ex_mean_nan ex_flag ex_shuffled_nan [ex_interaction]
            [(''c1'', ''c1''), (''c1'', ''c2'')] ex_base = Inr res"
    by (simp add: ex_defs2 bpr_eval)
  then obtain res where run: "build_percent_result ex_mean_nan ex_flag ex_shuffled_nan
      [ex_interaction] [(''c1'', ''c1''), (''c1'', ''c2'')] ex_base = Inr res"
    by blast
  have c11: "at_get res 1 ''c1_c1'' = Inr (Fin 2)"
    using run by (auto simp add: ex_defs2 bpr_eval)
  from facts have "\<forall>ys qs pre k' post res.
            build_percent_result ex_mean_nan ex_flag ex_shuffled_nan ys qs ex_base = Inr res \<and>
            distinct (map idx ys) \<and> distinct (map pair_key qs) \<and>
            List.product ys qs = pre @ k' # (ex_interaction, (''c1'', ''c2'')) # post \<longrightarrow>
            (\<exists>v. at_get res (idx (fst k')) (pair_key (snd k')) = Inr v \<and>
                 at_get res (idx ex_interaction) (pair_key (''c1'', ''c2'')) = Inr v)"
    by blast
  from this [rule_format, of "[ex_interaction]" "[(''c1'', ''c1''), (''c1'', ''c2'')]" res "[]"
      "(ex_interaction, (''c1'', ''c1''))" "[]"] run
  have "\<exists>v. at_get res 1 ''c1_c1'' = Inr v \<and> at_get res 1 ''c1_c2'' = Inr v"
    by (simp add: ex_defs)
  with c11 have "at_get res 1 ''c1_c2'' = Inr (Fin 2)" by auto
  with first run c11 show ?thesis by blast
qed

section \<open>mean_analysis: the score of a cell\<close>

lemma mean_analysis_flat:
  "mean_analysis xs cm pairs base suffixes =
     for_each (\<lambda>p. mean_step cm suffixes (fst p) (snd p)) (List.product xs pairs) base"
  unfolding mean_analysis_def mean_step_def by (rule for_each_product)

lemma mean_analysis_cell:
  assumes run: "mean_analysis xs cm pairs base suffixes = Inr result"
    and dx: "distinct (map idx xs)" and dc: "distinct (map pair_key pairs)"
    and x: "x \<in> set xs" and ci: "ci \<in> set pairs"
  shows "\<exists>v. cluster_interaction_mean ci x cm suffixes = Inr v \<and>
             at_get result (idx x) (pair_key ci) = Inr v"
proof -
  let ?ks = "List.product xs pairs"
  let ?body = "\<lambda>p. mean_step cm suffixes (fst p) (snd p)"
  let ?Q = "\<lambda>t. \<exists>v. cluster_interaction_mean ci x cm suffixes = Inr v \<and>
                  at_get t (idx x) (pair_key ci) = Inr v"
  from run have st: "for_each ?body ?ks base = Inr result"
    by (simp add: mean_analysis_flat)
  from x ci have "(x, ci) \<in> set ?ks" by simp
  then obtain pre post where split: "?ks = pre @ (x, ci) # post" by (meson split_list)
  have "distinct (map cell_key (pre @ (x, ci) # post))"
    using distinct_cell_keys [OF dx dc] split by simp
  then have other: "cell_key k \<noteq> cell_key (x, ci)" if "k \<in> set post" for k
    using that by (auto simp: image_iff)
  show "?Q result"
  proof (rule for_each_establish [where Q = ?Q and body = ?body and xs = pre
        and k = "(x, ci)" and ys = post and s = base])
    show "for_each ?body (pre @ (x, ci) # post) base = Inr result" using st split by simp
  next
    fix t t' assume "?body (x, ci) t = Inr t'"
    then show "?Q t'" by (auto simp: mean_step_def at_get_at_set_same split: sum.splits)
  next
    fix k' t t' assume k': "k' \<in> set post" and q: "?Q t" and step: "?body k' t = Inr t'"
    from other [OF k'] have "(idx (fst k'), pair_key (snd k')) \<noteq> (idx x, pair_key ci)"
      by (simp add: cell_key_def)
    then show "?Q t'" using q step
      by (auto simp: mean_step_def at_get_at_set_other split: sum.splits)
  qed
qed

lemma cluster_interaction_mean_Inr:
  assumes "cluster_interaction_mean ci x cm suffixes = Inr v"
  shows "\<exists>receptors ligands gene_1 gene_2 mean_receptor mean_ligand.
           cm (fst ci) = Some receptors \<and> cm (snd ci) = Some ligands \<and>
           entries x (''ensembl'' @ fst suffixes) = Some gene_1 \<and>
           entries x (''ensembl'' @ snd suffixes) = Some gene_2 \<and>
           map_of receptors gene_1 = Some mean_receptor \<and>
           map_of ligands gene_2 = Some mean_ligand \<and>
           v = fl_div (fl_add mean_receptor mean_ligand) (Fin 2)"
  using assms
  by (auto simp: cluster_interaction_mean_def dict_get_def series_get_def
      split: sum.splits option.splits)

lemma fl_add_nan: "fl_add a NaN = NaN" "fl_add NaN b = NaN"
  by (cases a) auto

lemmas ma_eval = mean_analysis_def cluster_interaction_mean_def dict_get_def series_get_def
  at_get_def at_set_def has_cell_def default_suffixes_def

text \<open>
  C4. For an interaction and a cluster pair (A, B), let \<open>mean_receptor\<close> be the differential
  mean of the gene of side 1 under cluster A and \<open>mean_ligand\<close> that of the gene of side 2
  under cluster B. \<open>cluster_interaction_mean\<close> returns their sum divided by 2, and
  \<open>mean_analysis\<close> stores it in the cell of the interaction and the pair: for two finite
  values the arithmetic mean, a zero among them included, and NaN when either is NaN. Row
  labels and column keys are distinct, so that no later pass writes the cell again.
\<close>

theorem mean_analysis_arithmetic_mean:
  assumes run: "mean_analysis xs cm pairs base suffixes = Inr result"
    and dx: "distinct (map idx xs)" and dc: "distinct (map pair_key pairs)"
    and x: "x \<in> set xs" and ci: "ci \<in> set pairs"
    and side1: "cm (fst ci) = Some receptors"
      "entries x (''ensembl'' @ fst suffixes) = Some gene_1"
      "map_of receptors gene_1 = Some mean_receptor"
    and side2: "cm (snd ci) = Some ligands"
      "entries x (''ensembl'' @ snd suffixes) = Some gene_2"
      "map_of ligands gene_2 = Some mean_ligand"
  shows "cluster_interaction_mean ci x cm suffixes =
           Inr (fl_div (fl_add mean_receptor mean_ligand) (Fin 2)) \<and>
         at_get result (idx x) (pair_key ci) =
           Inr (fl_div (fl_add mean_receptor mean_ligand) (Fin 2)) \<and>
         (\<forall>a b. mean_receptor = Fin a \<and> mean_ligand = Fin b \<longrightarrow>
            at_get result (idx x) (pair_key ci) = Inr (Fin ((a + b) / 2))) \<and>
         (mean_receptor = NaN \<or> mean_ligand = NaN \<longrightarrow>
            at_get result (idx x) (pair_key ci) = Inr NaN)"
proof -
  have score: "cluster_interaction_mean ci x cm suffixes =
      Inr (fl_div (fl_add mean_receptor mean_ligand) (Fin 2))"
    using side1 side2 by (simp add: cluster_interaction_mean_def dict_get_def series_get_def)
  from mean_analysis_cell [OF run dx dc x ci] score
  have cell: "at_get result (idx x) (pair_key ci) =
      Inr (fl_div (fl_add mean_receptor mean_ligand) (Fin 2))"
    by auto
  have "at_get result (idx x) (pair_key ci) = Inr (Fin ((a + b) / 2))"
    if "mean_receptor = Fin a \<and> mean_ligand = Fin b" for a b
    using that cell by simp
  moreover have "at_get result (idx x) (pair_key ci) = Inr NaN"
    if "mean_receptor = NaN \<or> mean_ligand = NaN"
    using that cell by (auto simp: fl_add_nan)
  ultimately show ?thesis using score cell by blast
qed

theorem mean_analysis_arithmetic_mean_witness:
  "\<exists>result. mean_analysis [ex_interaction] ex_cluster_means ex_pairs ex_base default_suffixes
       = Inr result \<and>
     at_get result 1 ''c1_c1'' = Inr (Fin (3 / 2)) \<and>
     at_get result 1 ''c1_c2'' = Inr (Fin (1 / 2)) \<and>
     at_get result 1 ''c2_c1'' = Inr NaN"
proof -
  have "\<exists>result. mean_analysis [ex_interaction] ex_cluster_means ex_pairs ex_base default_suffixes
       = Inr result"
    by (simp add: ex_defs ex_cluster_means_def ma_eval)
  then obtain result where run: "mean_analysis [ex_interaction] ex_cluster_means ex_pairs ex_base
      default_suffixes = Inr result" by blast
  have dx: "distinct (map idx [ex_interaction])" by simp
  have dc: "distinct (map pair_key ex_pairs)" by (simp add: ex_defs)
  note cell = mean_analysis_arithmetic_mean [OF run dx dc, where x = ex_interaction]
  have "at_get result 1 ''c1_c1'' = Inr (Fin (3 / 2))"
    using cell [of "(''c1'', ''c1'')" "[(''g1'', Fin 0), (''g2'', Fin 3)]" "''g1''" "Fin 0"
        "[(''g1'', Fin 0), (''g2'', Fin 3)]" "''g2''" "Fin 3"]
    by (simp add: ex_defs ex_cluster_means_def default_suffixes_def)
  moreover have "at_get result 1 ''c1_c2'' = Inr (Fin (1 / 2))"
    using cell [of "(''c1'', ''c2'')" "[(''g1'', Fin 0), (''g2'', Fin 3)]" "''g1''" "Fin 0"
        "[(''g1'', NaN), (''g2'', Fin 1)]" "''g2''" "Fin 1"]
    by (simp add: ex_defs ex_cluster_means_def default_suffixes_def)
  moreover have "at_get result 1 ''c2_c1'' = Inr NaN"
    using cell [of "(''c2'', ''c1'')" "[(''g1'', NaN), (''g2'', Fin 1)]" "''g1''" "NaN"
        "[(''g1'', Fin 0), (''g2'', Fin 3)]" "''g2''" "Fin 3"]
    by (simp add: ex_defs ex_cluster_means_def default_suffixes_def)
  ultimately show ?thesis using run by blast
qed

section \<open>build_clusters: the groups tumor and normal\<close>

lemma drop_duplicates_acc:
  "set (fold (\<lambda>x acc. if x \<in> set acc then acc else acc @ [x]) xs acc) = set acc \<union> set xs \<and>
   (distinct acc \<longrightarrow> distinct (fold (\<lambda>x acc. if x \<in> set acc then acc else acc @ [x]) xs acc))"
  by (induction xs arbitrary: acc) auto

lemma set_drop_duplicates: "set (drop_duplicates xs) = set xs"
  using drop_duplicates_acc [of xs "[]"] by (simp add: drop_duplicates_def)

lemma distinct_drop_duplicates: "distinct (drop_duplicates xs)"
  using drop_duplicates_acc [of xs "[]"] by (simp add: drop_duplicates_def)

lemma build_group_error: "build_group m cnts c g st = Inl e \<Longrightarrow> e = KeyError"
  by (auto simp: build_group_def loc_columns_def split: sum.splits if_splits)

lemma for_each_error:
  assumes "for_each body xs s = Inl e" and "\<And>x t e. body x t = Inl e \<Longrightarrow> e = E"
  shows "e = E"
  using assms(1)
proof (induction xs arbitrary: s)
  case Nil
  then show ?case by simp
next
  case (Cons x xs)
  then show ?case using assms(2) by (auto split: sum.splits)
qed

text \<open>What the loop over the groups of cluster \<open>c\<close> leaves in the two dictionaries.\<close>

lemma build_groups_result:
  assumes "for_each (build_group m cnts c) gs st = Inr st'"
  shows "(\<forall>g \<in> set gs. \<exists>sub. loc_columns cnts (select_cells m c g) = Inr sub \<and>
            fst st' (c, g) = Some sub \<and> snd st' (c, g) = Some (row_means sub)) \<and>
         (\<forall>k. k \<notin> Pair c ` set gs \<longrightarrow> fst st' k = fst st k \<and> snd st' k = snd st k)"
  using assms
proof (induction gs arbitrary: st)
  case Nil
  then show ?case by simp
next
  case (Cons g gs)
  from Cons.prems obtain st1 where step: "build_group m cnts c g st = Inr st1"
    and rest1: "for_each (build_group m cnts c) gs st1 = Inr st'"
    by (auto split: sum.splits)
  from step obtain sub where sub: "loc_columns cnts (select_cells m c g) = Inr sub"
    and st1: "st1 = ((fst st)((c, g) \<mapsto> sub), (snd st)((c, g) \<mapsto> row_means sub))"
    by (auto simp: build_group_def split: sum.splits)
  from rest1 st1 have rest: "for_each (build_group m cnts c) gs
        ((fst st)((c, g) \<mapsto> sub), (snd st)((c, g) \<mapsto> row_means sub)) = Inr st'"
    by simp
  note ih = Cons.IH [OF rest]
  have here: "\<exists>sub. loc_columns cnts (select_cells m c g) = Inr sub \<and>
            fst st' (c, g) = Some sub \<and> snd st' (c, g) = Some (row_means sub)"
  proof (cases "g \<in> set gs")
    case True
    with ih show ?thesis by blast
  next
    case False
    then have "(c, g) \<notin> Pair c ` set gs" by auto
    with ih have "fst st' (c, g) = Some sub \<and> snd st' (c, g) = Some (row_means sub)" by simp
    with sub show ?thesis by blast
  qed
  have frame: "fst st' k = fst st k \<and> snd st' k = snd st k" if "k \<notin> Pair c ` set (g # gs)" for k
  proof -
    from that have "k \<notin> Pair c ` set gs" "k \<noteq> (c, g)" by auto
    with ih show ?thesis by (cases k) auto
  qed
  from here ih frame show ?case by auto
qed



lemma build_cluster_result:
  assumes run: "build_cluster m cnts gs c st = Inr st'"
    and fresh: "\<forall>g. fst (snd st) (c, g) = None"
  shows "''tumor'' \<in> set gs \<and> ''normal'' \<in> set gs \<and>
         (\<exists>s. de_means_of m cnts c = Some s \<and> snd (snd st') = (snd (snd st))(c \<mapsto> s)) \<and>
         (\<forall>g \<in> set gs. \<exists>sub. loc_columns cnts (select_cells m c g) = Inr sub \<and>
            fst st' (c, g) = Some sub) \<and>
         (\<forall>k. k \<notin> Pair c ` set gs \<longrightarrow>
            fst st' k = fst st k \<and> fst (snd st') k = fst (snd st) k)"
proof -
  from run obtain cm mt mn where
    loop: "for_each (build_group m cnts c) gs (fst st, fst (snd st)) = Inr cm"
    and mt: "snd cm (c, ''tumor'') = Some mt" and mn: "snd cm (c, ''normal'') = Some mn"
    and st': "st' = (fst cm, snd cm, (snd (snd st))(c \<mapsto> log2_ratio mt mn))"
    by (auto simp: build_cluster_def dict_get_def split: sum.splits option.splits)
  note res = build_groups_result [OF loop]
  have tumor: "''tumor'' \<in> set gs"
  proof (rule ccontr)
    assume "''tumor'' \<notin> set gs"
    then have "(c, ''tumor'') \<notin> Pair c ` set gs" by auto
    with res have "snd cm (c, ''tumor'') = fst (snd st) (c, ''tumor'')" by simp
    with fresh mt show False by simp
  qed
  have normal: "''normal'' \<in> set gs"
  proof (rule ccontr)
    assume "''normal'' \<notin> set gs"
    then have "(c, ''normal'') \<notin> Pair c ` set gs" by auto
    with res have "snd cm (c, ''normal'') = fst (snd st) (c, ''normal'')" by simp
    with fresh mn show False by simp
  qed
  from res tumor mt obtain t where t: "loc_columns cnts (select_cells m c ''tumor'') = Inr t"
    "mt = row_means t" by fastforce
  from res normal mn obtain n where n: "loc_columns cnts (select_cells m c ''normal'') = Inr n"
    "mn = row_means n" by fastforce
  have "de_means_of m cnts c = Some (log2_ratio mt mn)"
    using t n by (simp add: de_means_of_def)
  then show ?thesis using tumor normal res st' by auto
qed

lemma build_cluster_error: "build_cluster m cnts gs c st = Inl e \<Longrightarrow> e = KeyError"
  using for_each_error [of "build_group m cnts c" gs _ e KeyError] build_group_error
  by (auto simp: build_cluster_def dict_get_def split: sum.splits option.splits)

lemma build_cluster_first:
  assumes "''tumor'' \<notin> set gs \<or> ''normal'' \<notin> set gs"
    and fresh: "\<forall>g. fst (snd st) (c, g) = None"
  shows "build_cluster m cnts gs c st = Inl KeyError"
proof (cases "build_cluster m cnts gs c st")
  case (Inl e)
  then show ?thesis using build_cluster_error by blast
next
  case (Inr st')
  from build_cluster_result [OF Inr fresh] assms(1) show ?thesis by blast
qed

lemma build_clusters_loop:
  assumes "for_each (build_cluster m cnts gs) cs st = Inr st'"
    and "distinct cs" and "\<forall>c \<in> set cs. \<forall>g. fst (snd st) (c, g) = None"
  shows "(\<forall>c \<in> set cs. ''tumor'' \<in> set gs \<and> ''normal'' \<in> set gs \<and>
            (\<exists>s. de_means_of m cnts c = Some s \<and> snd (snd st') c = Some s) \<and>
            (\<forall>g \<in> set gs. \<exists>sub. loc_columns cnts (select_cells m c g) = Inr sub \<and>
               fst st' (c, g) = Some sub)) \<and>
         (\<forall>c. c \<notin> set cs \<longrightarrow> snd (snd st') c = snd (snd st) c \<and>
            (\<forall>g. fst st' (c, g) = fst st (c, g)))"
  using assms
proof (induction cs arbitrary: st)
  case Nil
  then show ?case by simp
next
  case (Cons c cs)
  from Cons.prems(1) obtain st1 where step: "build_cluster m cnts gs c st = Inr st1"
    and rest: "for_each (build_cluster m cnts gs) cs st1 = Inr st'"
    by (auto split: sum.splits)
  from Cons.prems(3) have fresh: "\<forall>g. fst (snd st) (c, g) = None" by simp
  note one = build_cluster_result [OF step fresh]
  from Cons.prems(2) have dist: "distinct cs" and notin: "c \<notin> set cs" by auto
  have fresh1: "\<forall>c' \<in> set cs. \<forall>g. fst (snd st1) (c', g) = None"
  proof (intro ballI allI)
    fix c' g assume c': "c' \<in> set cs"
    with notin have "(c', g) \<notin> Pair c ` set gs" by auto
    with one have "fst (snd st1) (c', g) = fst (snd st) (c', g)" by blast
    with Cons.prems(3) c' show "fst (snd st1) (c', g) = None" by simp
  qed
  note ih = Cons.IH [OF rest dist fresh1]
  from ih notin have keep: "snd (snd st') c = snd (snd st1) c" "\<And>g. fst st' (c, g) = fst st1 (c, g)"
    by auto
  have head: "''tumor'' \<in> set gs \<and> ''normal'' \<in> set gs \<and>
            (\<exists>s. de_means_of m cnts c = Some s \<and> snd (snd st') c = Some s) \<and>
            (\<forall>g \<in> set gs. \<exists>sub. loc_columns cnts (select_cells m c g) = Inr sub \<and>
               fst st' (c, g) = Some sub)"
    using one keep by auto
  have frame: "snd (snd st') c' = snd (snd st) c' \<and> (\<forall>g. fst st' (c', g) = fst st (c', g))"
    if "c' \<notin> set (c # cs)" for c'
  proof -
    from that have a: "c' \<notin> set cs" and b: "c' \<noteq> c" by auto
    from b have "\<And>g. (c', g) \<notin> Pair c ` set gs" by auto
    with one have "\<And>g. fst st1 (c', g) = fst st (c', g)" by blast
    moreover from one b have "snd (snd st1) c' = snd (snd st) c'" by auto
    ultimately show ?thesis using ih a by auto
  qed
  from head ih frame show ?case by auto
qed

lemma build_clusters_Inr:
  assumes "build_clusters m cnts = Inr cl"
  shows "names cl = drop_duplicates (map cell_type m) \<and>
         groups cl = drop_duplicates (map group m) \<and>
         (\<forall>c \<in> set (names cl). ''tumor'' \<in> set (groups cl) \<and> ''normal'' \<in> set (groups cl) \<and>
            (\<exists>s. de_means_of m cnts c = Some s \<and> means cl c = Some s) \<and>
            (\<forall>g \<in> set (groups cl). \<exists>sub. loc_columns cnts (select_cells m c g) = Inr sub \<and>
               counts cl (c, g) = Some sub)) \<and>
         (\<forall>c. c \<notin> set (names cl) \<longrightarrow> means cl c = None)"
proof -
  let ?cs = "drop_duplicates (map cell_type m)" and ?gs = "drop_duplicates (map group m)"
  from assms obtain st where
    loop: "for_each (build_cluster m cnts ?gs) ?cs (Map.empty, Map.empty, Map.empty) = Inr st"
    and cl: "cl = \<lparr> names = ?cs, groups = ?gs, counts = fst st, means = snd (snd st) \<rparr>"
    by (auto simp: build_clusters_def Let_def split: sum.splits)
  from build_clusters_loop [OF loop distinct_drop_duplicates] cl show ?thesis by simp
qed

lemma drop_duplicates_nonempty: "xs \<noteq> [] \<Longrightarrow> drop_duplicates xs \<noteq> []"
  using set_drop_duplicates [of xs] by (metis set_empty)

lemma for_each_fails_with:
  assumes "k \<in> set ks" and "\<And>t. body k t = Inl E"
    and "\<And>k' t e. body k' t = Inl e \<Longrightarrow> e = E"
  shows "for_each body ks s = Inl E"
proof -
  from for_each_fails [of k ks body s] assms(1,2) obtain e where e: "for_each body ks s = Inl e"
    by blast
  from for_each_error [OF e, of E] assms(3) show ?thesis using e by blast
qed

lemma build_clusters_KeyError:
  assumes "m \<noteq> []" and "''tumor'' \<notin> set (map group m) \<or> ''normal'' \<notin> set (map group m)"
  shows "build_clusters m cnts = Inl KeyError"
proof -
  let ?cs = "drop_duplicates (map cell_type m)" and ?gs = "drop_duplicates (map group m)"
  from assms(1) obtain c cs where cs: "?cs = c # cs"
    using drop_duplicates_nonempty [of "map cell_type m"] by (cases ?cs) auto
  have gs: "''tumor'' \<notin> set ?gs \<or> ''normal'' \<notin> set ?gs"
    using assms(2) by (simp only: set_drop_duplicates)
  have "build_cluster m cnts ?gs c (Map.empty, Map.empty, Map.empty) = Inl KeyError"
    by (rule build_cluster_first [OF gs]) simp
  then show ?thesis by (simp add: build_clusters_def Let_def cs)
qed

lemma counts_percent_frame:
  assumes "index sub \<noteq> []"
  shows "counts_percent (Frame sub) threshold = Inr (if fl_lt (Fin 1) threshold then 1 else 0)"
  using assms by (simp add: counts_percent_def py_truediv_def Let_def)

lemma apply_counts_percent_acc:
  assumes "index sub \<noteq> []"
  shows "for_each (\<lambda>g acc.
          case counts_percent (Frame sub) threshold of
            Inl e \<Rightarrow> Inl e
          | Inr flag \<Rightarrow> Inr (acc @ [(g, Some flag)])) gs acc =
         Inr (acc @ map (\<lambda>g. (g, Some (if fl_lt (Fin 1) threshold then 1 else 0))) gs)"
  by (induction gs arbitrary: acc) (simp_all add: counts_percent_frame [OF assms])

lemma apply_counts_percent_eq:
  "apply_counts_percent sub threshold =
     Inr (map (\<lambda>g. (g, if columns sub = [] then None
                          else Some (if fl_lt (Fin 1) threshold then 1 else 0))) (index sub))"
  by (cases "index sub = []") (auto simp: apply_counts_percent_def apply_counts_percent_acc)

lemma cluster_percents_error: "cluster_percents cl threshold c ps = Inl e \<Longrightarrow> e = KeyError"
  by (auto simp: cluster_percents_def dict_get_def apply_counts_percent_eq
      split: sum.splits option.splits)

lemma percent_analysis_KeyError:
  assumes "c \<in> set (names cl)"
    and "counts cl (c, ''tumor'') = None \<or> counts cl (c, ''normal'') = None"
  shows "percent_analysis cl threshold xs pairs base suffixes = Inl KeyError"
proof -
  have "cluster_percents cl threshold c ps = Inl KeyError" for ps
    using assms(2) by (auto simp: cluster_percents_def dict_get_def split: option.splits)
  then have "for_each (cluster_percents cl threshold) (names cl) Map.empty = Inl KeyError"
    using for_each_fails_with [OF assms(1), of "cluster_percents cl threshold" KeyError]
      cluster_percents_error by blast
  then show ?thesis by (simp add: percent_analysis_def)
qed

lemmas bc_eval = build_clusters_def build_cluster_def build_group_def drop_duplicates_def
  select_cells_def loc_columns_def dict_get_def row_means_def row_values_def series_mean_def
  log2_ratio_def isnan_def

lemmas ex_defs3 = ex_counts_def ex_meta_pair_def ex_meta_split_def ex_meta_three_def
  ex_meta_case_def ex_cluster_means_def

text \<open>
  C10, as the code has it. \<open>build_clusters\<close> raises KeyError for every metadata table with
  at least one cell whose group column lacks the label tumor or the label normal. When it
  returns, the differential means of every cluster are the log2 ratio of its tumor means and
  its normal means; no argument designates another pair of groups. \<open>percent_analysis\<close>
  raises KeyError as soon as the counts of a cluster have no entry for tumor or for normal.
  Without any cell there is no cluster and nothing is looked up, and further group labels
  beside the two are ignored: both calls then return, which the counterexample shows.
\<close>

theorem build_clusters_tumor_normal:
  "(m \<noteq> [] \<and> (''tumor'' \<notin> set (map group m) \<or> ''normal'' \<notin> set (map group m)) \<longrightarrow>
      build_clusters m cnts = Inl KeyError) \<and>
   (\<forall>cl c. build_clusters m cnts = Inr cl \<and> c \<in> set (names cl) \<longrightarrow>
      (\<exists>t n. loc_columns cnts (select_cells m c ''tumor'') = Inr t \<and>
             loc_columns cnts (select_cells m c ''normal'') = Inr n \<and>
             means cl c = Some (log2_ratio (row_means t) (row_means n)))) \<and>
   (\<forall>cl c. c \<in> set (names cl) \<and>
      (counts cl (c, ''tumor'') = None \<or> counts cl (c, ''normal'') = None) \<longrightarrow>
      percent_analysis cl threshold xs pairs base suffixes = Inl KeyError)"
proof -
  have "\<exists>t n. loc_columns cnts (select_cells m c ''tumor'') = Inr t \<and>
             loc_columns cnts (select_cells m c ''normal'') = Inr n \<and>
             means cl c = Some (log2_ratio (row_means t) (row_means n))"
    if "build_clusters m cnts = Inr cl \<and> c \<in> set (names cl)" for cl c
  proof -
    from build_clusters_Inr [of m cnts cl] that obtain s where
      "de_means_of m cnts c = Some s" "means cl c = Some s" by blast
    then show ?thesis by (auto simp: de_means_of_def split: sum.splits)
  qed
  then show ?thesis using build_clusters_KeyError percent_analysis_KeyError by blast
qed

theorem build_clusters_tumor_normal_witness:
  "build_clusters ex_meta_case ex_counts = Inl KeyError \<and>
   (\<exists>cl t n. build_clusters ex_meta_pair ex_counts = Inr cl \<and>
      loc_columns ex_counts (select_cells ex_meta_pair ''c1'' ''tumor'') = Inr t \<and>
      loc_columns ex_counts (select_cells ex_meta_pair ''c1'' ''normal'') = Inr n \<and>
      means cl ''c1'' = Some (log2_ratio (row_means t) (row_means n))) \<and>
   percent_analysis ex_no_groups (Fin (1 / 10)) [ex_interaction] ex_pairs ex_base default_suffixes
     = Inl KeyError"
proof -
  note inst = build_clusters_tumor_normal
  have "build_clusters ex_meta_case ex_counts = Inl KeyError"
    using inst [of ex_meta_case ex_counts] by (simp add: ex_meta_case_def)
  moreover have "\<exists>cl. build_clusters ex_meta_pair ex_counts = Inr cl \<and> ''c1'' \<in> set (names cl)"
    by (simp add: ex_defs3 table_def bc_eval)
  then have "\<exists>cl t n. build_clusters ex_meta_pair ex_counts = Inr cl \<and>
      loc_columns ex_counts (select_cells ex_meta_pair ''c1'' ''tumor'') = Inr t \<and>
      loc_columns ex_counts (select_cells ex_meta_pair ''c1'' ''normal'') = Inr n \<and>
      means cl ''c1'' = Some (log2_ratio (row_means t) (row_means n))"
    using inst [of ex_meta_pair ex_counts] by blast
  moreover have "percent_analysis ex_no_groups (Fin (1 / 10)) [ex_interaction] ex_pairs ex_base
      default_suffixes = Inl KeyError"
    using inst [of "[]" ex_counts "Fin (1 / 10)" "[ex_interaction]" ex_pairs ex_base
        default_suffixes]
    by (simp add: ex_no_groups_def)
  ultimately show ?thesis by blast
qed

theorem build_clusters_tumor_normal_counterexample:
  "drop_duplicates (map group []) = [] \<and>
   build_clusters [] ex_counts =
     Inr \<lparr> names = [], groups = [], counts = Map.empty, means = Map.empty \<rparr> \<and>
   percent_analysis \<lparr> names = [], groups = [], counts = Map.empty, means = Map.empty \<rparr>
     (Fin (1 / 10)) [ex_interaction] [] ex_base default_suffixes = Inr ex_base \<and>
   (\<exists>cl. build_clusters ex_meta_three ex_counts = Inr cl \<and>
      groups cl = [''tumor'', ''normal'', ''other''] \<and>
      means cl ''c1'' = Some [(''g1'', PInf), (''g2'', NInf)])"
  by (simp add: ex_defs3 table_def bc_eval percent_analysis_def)

section \<open>build_clusters: undefined means and their propagation\<close>

lemma map_of_graph:
  "map_of (map (\<lambda>g. (g, f g)) gs) k = (if k \<in> set gs then Some (f k) else None)"
  by (induction gs) auto

lemma series_mean_empty: "series_mean [] = NaN"
  by (simp add: series_mean_def)

lemma row_means_no_columns:
  assumes "columns sub = []"
  shows "row_means sub = map (\<lambda>g. (g, NaN)) (index sub)"
  using assms by (simp add: row_means_def row_values_def series_mean_empty)

lemma loc_columns_empty:
  "loc_columns cnts [] = Inr \<lparr> index = index cnts, columns = [],
       cells = (\<lambda>k. if snd k \<in> set (columns cnts) then cells cnts k else NaN) \<rparr>"
  by (simp add: loc_columns_def)

lemma fl_div_nan: "fl_div a NaN = NaN" "fl_div NaN b = NaN"
  by (cases a) auto

lemma log2_ratio_nan:
  assumes "map_of (log2_ratio a b) g = Some v"
    and "(\<forall>p \<in> set a. snd p = NaN) \<or> (\<forall>p \<in> set b. snd p = NaN)"
  shows "v = NaN"
proof -
  from assms(1) have "(g, v) \<in> set (log2_ratio a b)" by (rule map_of_SomeD)
  then obtain p where p: "p \<in> set (zip a b)" and v: "v = fl_log2 (fl_div (snd (fst p)) (snd (snd p)))"
    by (auto simp: log2_ratio_def)
  from p have "fst p \<in> set a" "snd p \<in> set b"
    by (metis prod.collapse set_zip_leftD, metis prod.collapse set_zip_rightD)
  with assms(2) have "snd (fst p) = NaN \<or> snd (snd p) = NaN" by blast
  with v show ?thesis by (auto simp: fl_div_nan)
qed

lemma de_means_empty_subset:
  assumes de: "de_means_of m cnts c = Some s"
    and empty: "select_cells m c ''tumor'' = [] \<or> select_cells m c ''normal'' = []"
    and v: "map_of s g = Some v"
  shows "v = NaN"
proof -
  from de obtain t n where t: "loc_columns cnts (select_cells m c ''tumor'') = Inr t"
    and n: "loc_columns cnts (select_cells m c ''normal'') = Inr n"
    and s: "s = log2_ratio (row_means t) (row_means n)"
    by (auto simp: de_means_of_def split: sum.splits)
  from empty have "(\<forall>p \<in> set (row_means t). snd p = NaN) \<or> (\<forall>p \<in> set (row_means n). snd p = NaN)"
  proof
    assume "select_cells m c ''tumor'' = []"
    with t have "columns t = []" by (auto simp: loc_columns_empty)
    then show ?thesis by (auto simp: row_means_no_columns)
  next
    assume "select_cells m c ''normal'' = []"
    with n have "columns n = []" by (auto simp: loc_columns_empty)
    then show ?thesis by (auto simp: row_means_no_columns)
  qed
  with v s show ?thesis using log2_ratio_nan by blast
qed

text \<open>
  C3, as the code has it. When no cell belongs to a cluster and a group, the pass of the
  inner loop of \<open>build_clusters\<close> for them succeeds and every per-gene mean it stores is NaN. The log2 ratio is a
  total function of the two means: over a zero denominator it is plus infinity for a
  numerator above zero and NaN otherwise; for a ratio that is zero it is minus infinity and
  for a ratio below zero NaN. When a cluster of a pair has an empty tumor or normal subset,
  the cell that \<open>mean_analysis\<close> computes for the pair from the result of
  \<open>build_clusters\<close> is NaN. The counterexample is a cluster whose tumor mean is 1 and whose
  normal mean is 0 for a gene: its differential mean is plus infinity, neither NaN nor minus
  infinity.
\<close>

theorem build_clusters_nan_propagates:
  "(select_cells m c g = [] \<longrightarrow>
      (\<exists>sub. build_group m cnts c g st =
               Inr ((fst st)((c, g) \<mapsto> sub), (snd st)((c, g) \<mapsto> row_means sub)) \<and>
         (\<forall>gene \<in> set (index cnts). series_get (row_means sub) gene = Inr NaN))) \<and>
   fl_log2 (fl_div t (Fin 0)) = (if fl_gt t (Fin 0) then PInf else NaN) \<and>
   (\<forall>r. fl_div t n = Fin r \<and> r \<le> 0 \<longrightarrow>
      fl_log2 (fl_div t n) = (if r = 0 then NInf else NaN)) \<and>
   (\<forall>cl result.
      build_clusters m cnts = Inr cl \<and>
      mean_analysis xs (means cl) pairs base suffixes = Inr result \<and>
      distinct (map idx xs) \<and> distinct (map pair_key pairs) \<and> x \<in> set xs \<and> ci \<in> set pairs \<and>
      (select_cells m (fst ci) ''tumor'' = [] \<or> select_cells m (fst ci) ''normal'' = [] \<or>
       select_cells m (snd ci) ''tumor'' = [] \<or> select_cells m (snd ci) ''normal'' = []) \<longrightarrow>
      at_get result (idx x) (pair_key ci) = Inr NaN)"
proof -
  have empty: "\<exists>sub. build_group m cnts c g st =
               Inr ((fst st)((c, g) \<mapsto> sub), (snd st)((c, g) \<mapsto> row_means sub)) \<and>
         (\<forall>gene \<in> set (index cnts). series_get (row_means sub) gene = Inr NaN)"
    if "select_cells m c g = []"
  proof -
    let ?sub = "\<lparr> index = index cnts, columns = [],
       cells = (\<lambda>k. if snd k \<in> set (columns cnts) then cells cnts k else NaN) \<rparr>"
    have "build_group m cnts c g st =
        Inr ((fst st)((c, g) \<mapsto> ?sub), (snd st)((c, g) \<mapsto> row_means ?sub))"
      using that by (simp add: build_group_def loc_columns_empty)
    moreover have "\<forall>gene \<in> set (index cnts). series_get (row_means ?sub) gene = Inr NaN"
      by (simp add: row_means_no_columns series_get_def map_of_graph)
    ultimately show ?thesis by blast
  qed
  have zero: "fl_log2 (fl_div t (Fin 0)) = (if fl_gt t (Fin 0) then PInf else NaN)"
    by (cases t) auto
  have ratio: "fl_log2 (fl_div t n) = (if r = 0 then NInf else NaN)"
    if "fl_div t n = Fin r \<and> r \<le> 0" for r
    using that by auto
  have table: "at_get result (idx x) (pair_key ci) = Inr NaN"
    if h: "build_clusters m cnts = Inr cl \<and>
      mean_analysis xs (means cl) pairs base suffixes = Inr result \<and>
      distinct (map idx xs) \<and> distinct (map pair_key pairs) \<and> x \<in> set xs \<and> ci \<in> set pairs \<and>
      (select_cells m (fst ci) ''tumor'' = [] \<or> select_cells m (fst ci) ''normal'' = [] \<or>
       select_cells m (snd ci) ''tumor'' = [] \<or> select_cells m (snd ci) ''normal'' = [])"
    for cl result
  proof -
    from h have built: "build_clusters m cnts = Inr cl" by blast
    from h mean_analysis_cell [of xs "means cl" pairs base suffixes result x ci]
    obtain v where v: "cluster_interaction_mean ci x (means cl) suffixes = Inr v"
      and cell: "at_get result (idx x) (pair_key ci) = Inr v" by blast
    from cluster_interaction_mean_Inr [OF v] obtain receptors ligands gene_1 gene_2 a b where
      lk: "means cl (fst ci) = Some receptors" "means cl (snd ci) = Some ligands"
        "map_of receptors gene_1 = Some a" "map_of ligands gene_2 = Some b"
      and v_eq: "v = fl_div (fl_add a b) (Fin 2)"
      by blast
    note bc = build_clusters_Inr [OF built]
    from bc lk(1) have de1: "de_means_of m cnts (fst ci) = Some receptors"
      by (metis option.distinct(1) option.inject)
    from bc lk(2) have de2: "de_means_of m cnts (snd ci) = Some ligands"
      by (metis option.distinct(1) option.inject)
    from h have "a = NaN \<or> b = NaN"
      using de_means_empty_subset [OF de1 _ lk(3)] de_means_empty_subset [OF de2 _ lk(4)]
      by blast
    then have "v = NaN" using v_eq by (auto simp: fl_add_nan)
    with cell show ?thesis by simp
  qed
  from empty zero ratio table show ?thesis by blast
qed

theorem build_clusters_nan_propagates_witness:
  "\<exists>cl result.
     build_clusters ex_meta_split ex_counts = Inr cl \<and>
     mean_analysis [ex_interaction] (means cl) [(''c1'', ''c2'')] ex_base default_suffixes
       = Inr result \<and>
     select_cells ex_meta_split ''c1'' ''normal'' = [] \<and>
     at_get result 1 ''c1_c2'' = Inr NaN \<and>
     (\<exists>sub. build_group ex_meta_split ex_counts ''c1'' ''normal'' (Map.empty, Map.empty) =
              Inr ([(''c1'', ''normal'') \<mapsto> sub], [(''c1'', ''normal'') \<mapsto> row_means sub]) \<and>
        series_get (row_means sub) ''g1'' = Inr NaN) \<and>
     fl_log2 (fl_div (Fin 1) (Fin 0)) = PInf \<and>
     fl_log2 (fl_div (Fin 0) (Fin 2)) = NInf"
proof -
  have "\<exists>cl. build_clusters ex_meta_split ex_counts = Inr cl \<and>
     means cl ''c1'' = Some [(''g1'', NaN), (''g2'', NaN)] \<and>
     means cl ''c2'' = Some [(''g1'', NaN), (''g2'', NaN)]"
    by (simp add: ex_defs3 ex_meta_split_def table_def bc_eval)
  then obtain cl where built: "build_clusters ex_meta_split ex_counts = Inr cl"
    and m1: "means cl ''c1'' = Some [(''g1'', NaN), (''g2'', NaN)]"
    and m2: "means cl ''c2'' = Some [(''g1'', NaN), (''g2'', NaN)]" by blast
  have "\<exists>result. mean_analysis [ex_interaction] (means cl) [(''c1'', ''c2'')] ex_base
      default_suffixes = Inr result"
    by (simp add: ex_defs ma_eval m1 m2)
  then obtain result where run: "mean_analysis [ex_interaction] (means cl) [(''c1'', ''c2'')]
      ex_base default_suffixes = Inr result" by blast
  have empty: "select_cells ex_meta_split ''c1'' ''normal'' = []"
    by (simp add: select_cells_def ex_meta_split_def)
  note inst = build_clusters_nan_propagates [where m = ex_meta_split and c = "''c1''"
      and g = "''normal''" and cnts = ex_counts and xs = "[ex_interaction]"
      and pairs = "[(''c1'', ''c2'')]" and base = ex_base and suffixes = default_suffixes
      and x = ex_interaction and ci = "(''c1'', ''c2'')"]
  from inst [where st = "(Map.empty, Map.empty)"] empty
  have "\<exists>sub. build_group ex_meta_split ex_counts ''c1'' ''normal'' (Map.empty, Map.empty) =
              Inr ([(''c1'', ''normal'') \<mapsto> sub], [(''c1'', ''normal'') \<mapsto> row_means sub]) \<and>
          (\<forall>gene \<in> set (index ex_counts). series_get (row_means sub) gene = Inr NaN)"
    by simp
  then have one: "\<exists>sub. build_group ex_meta_split ex_counts ''c1'' ''normal''
              (Map.empty, Map.empty) =
              Inr ([(''c1'', ''normal'') \<mapsto> sub], [(''c1'', ''normal'') \<mapsto> row_means sub]) \<and>
          series_get (row_means sub) ''g1'' = Inr NaN"
    by (auto simp: ex_counts_def table_def)
  from inst [where t = "Fin 1"] have two: "fl_log2 (fl_div (Fin 1) (Fin 0)) = PInf" by simp
  from inst [where t = "Fin 0" and n = "Fin 2"]
  have "\<forall>r. fl_div (Fin 0) (Fin 2) = Fin r \<and> r \<le> 0 \<longrightarrow>
      fl_log2 (fl_div (Fin 0) (Fin 2)) = (if r = 0 then NInf else NaN)" by blast
  then have three: "fl_log2 (fl_div (Fin 0) (Fin 2)) = NInf" by simp
  from inst built run empty have four: "at_get result (idx ex_interaction) (pair_key (''c1'', ''c2''))
      = Inr NaN"
    by (simp add: pair_key_def)
  then have "at_get result 1 ''c1_c2'' = Inr NaN" by (simp add: ex_defs)
  with built run empty one two three show ?thesis by blast
qed

theorem build_clusters_nan_propagates_counterexample:
  "\<exists>cl t n. build_clusters ex_meta_pair ex_counts = Inr cl \<and>
     loc_columns ex_counts (select_cells ex_meta_pair ''c1'' ''tumor'') = Inr t \<and>
     loc_columns ex_counts (select_cells ex_meta_pair ''c1'' ''normal'') = Inr n \<and>
     row_means t = [(''g1'', Fin 1), (''g2'', Fin 0)] \<and>
     row_means n = [(''g1'', Fin 0), (''g2'', Fin 2)] \<and>
     means cl ''c1'' = Some [(''g1'', PInf), (''g2'', NInf)]"
  by (simp add: ex_defs3 table_def bc_eval)

section \<open>percent_analysis: the flags\<close>

text \<open>
  C5. On a series, \<open>counts_percent\<close> returns 1 exactly when the fraction of entries above
  zero is below the threshold: 0 for the values 0.1, 0.2, 0.3, 0.0 at threshold 0.1, and 1
  for a gene no cell expresses. \<open>percent_analysis\<close> hands it the whole sub-matrix at every
  row, whose length before and after masking is the number of genes: the flag of every gene
  is 0 at threshold 0.1, whatever the cells hold. For a sub-matrix in which no cell expresses
  either gene, the flags of both groups and of the cluster are 0, and the cell of the
  interaction is 1.
\<close>

theorem percent_analysis_flags_ignore_counts:
  "counts_percent (Series [Fin (1 / 10), Fin (2 / 10), Fin (3 / 10), Fin 0]) (Fin (1 / 10)) = Inr 0 \<and>
   counts_percent (Series (row_values ex_silent ''g1'')) (Fin (1 / 10)) = Inr 1 \<and>
   apply_counts_percent ex_silent (Fin (1 / 10)) = Inr [(''g1'', Some 0), (''g2'', Some 0)] \<and>
   cluster_percents ex_silent_clusters (Fin (1 / 10)) ''c1'' Map.empty =
     Inr [''c1'' \<mapsto> [(''g1'', 0), (''g2'', 0)]] \<and>
   (\<exists>result. percent_analysis ex_silent_clusters (Fin (1 / 10)) [ex_interaction]
        [(''c1'', ''c1'')] ex_base default_suffixes = Inr result \<and>
      at_get result 1 ''c1_c1'' = Inr (Fin 1))"
  by (simp add: counts_percent_def py_truediv_def fl_lt_def apply_counts_percent_def
      cluster_percents_def percent_analysis_def cluster_interaction_percent_def flags_and_def
      dict_get_def series_get_def row_values_def at_get_def at_set_def has_cell_def
      ex_silent_def ex_silent_clusters_def ex_defs default_suffixes_def Let_def)

section \<open>shuffle_meta\<close>

lemma map_update_same: "(map f m)[i := f (m ! i)] = map f m"
  by (metis list_update_id map_update)

lemma set_cell_type_cell: "map cell (set_cell_type m i t) = map cell m"
  by (simp add: set_cell_type_def map_update map_update_same)

lemma set_cell_type_group: "map group (set_cell_type m i t) = map group m"
  by (simp add: set_cell_type_def map_update map_update_same)

lemma set_cell_type_types:
  "map cell_type (set_cell_type m i t) = (map cell_type m)[i := t]"
  by (simp add: set_cell_type_def map_update)

lemma swap_cell_type_same:
  assumes r: "r < length h" and i: "i < length (h ! r)"
  shows "same_but_types r h (swap_cell_type rng r i h)"
proof -
  let ?m = "h ! r" and ?j = "rng i mod Suc i"
  let ?ts = "map cell_type ?m"
  have j: "?j < length ?m" using i by (meson le_less_trans mod_less_divisor less_Suc_eq_le zero_less_Suc)
  let ?m' = "set_cell_type (set_cell_type ?m i (cell_type (?m ! ?j))) ?j (cell_type (?m ! i))"
  have eq: "swap_cell_type rng r i h = h[r := ?m']"
    by (simp add: swap_cell_type_def Let_def)
  have types: "map cell_type ?m' = ?ts[i := ?ts ! ?j, ?j := ?ts ! i]"
    using i j by (simp add: set_cell_type_types)
  have "mset (?ts[i := ?ts ! ?j, ?j := ?ts ! i]) = mset ?ts"
    using mset_swap [of ?j ?ts i] i j by simp
  with types have "mset (map cell_type ?m') = mset ?ts" by simp
  then show ?thesis
    using r by (simp add: same_but_types_def eq set_cell_type_cell set_cell_type_group)
qed

lemma same_but_types_trans:
  "same_but_types r h h1 \<Longrightarrow> same_but_types r h1 h2 \<Longrightarrow> same_but_types r h h2"
  by (simp add: same_but_types_def)

lemma same_but_types_length:
  "same_but_types r h h' \<Longrightarrow> length (h' ! r) = length (h ! r)"
  by (metis length_map same_but_types_def)

lemma fold_swap_same:
  assumes "r < length h" and "\<forall>i \<in> set is. i < length (h ! r)"
  shows "same_but_types r h (fold (swap_cell_type rng r) is h)"
  using assms
proof (induction "is" arbitrary: h)
  case Nil
  then show ?case by (simp add: same_but_types_def)
next
  case (Cons i "is")
  let ?h1 = "swap_cell_type rng r i h"
  have one: "same_but_types r h ?h1"
    using swap_cell_type_same Cons.prems by simp
  then have "r < length ?h1" "\<forall>i \<in> set is. i < length (?h1 ! r)"
    using Cons.prems same_but_types_length [OF one] by (simp_all add: same_but_types_def)
  from Cons.IH [OF this] have "same_but_types r ?h1 (fold (swap_cell_type rng r) is ?h1)" .
  with one show ?case using same_but_types_trans by simp
qed

text \<open>
  C8. \<open>shuffle_meta\<close> returns a new object: every object of the store it was called in,
  the input metadata among them, is unchanged. In the new table the cluster labels are a
  permutation of the input's (the same multiset), and the group label and the identifier of
  every cell are those of the input, in the same order.
\<close>

theorem shuffle_meta_permutes:
  assumes "meta < length h" and "shuffle_meta rng meta h = (meta_copy, h')"
  shows "meta_copy \<noteq> meta \<and> meta_copy < length h' \<and>
         (\<forall>k < length h. h' ! k = h ! k) \<and>
         mset (map cell_type (h' ! meta_copy)) = mset (map cell_type (h ! meta)) \<and>
         map group (h' ! meta_copy) = map group (h ! meta) \<and>
         map cell (h' ! meta_copy) = map cell (h ! meta)"
proof -
  let ?h1 = "h @ [h ! meta]"
  from assms(2) have copy: "meta_copy = length h"
    and h': "h' = shuffle_cell_type rng (length h) ?h1"
    by (auto simp: shuffle_meta_def Let_def)
  have "same_but_types (length h) ?h1 (fold (swap_cell_type rng (length h))
          (rev [1..<length (?h1 ! length h)]) ?h1)"
    by (rule fold_swap_same) auto
  then have same: "same_but_types (length h) ?h1 h'"
    by (simp add: h' shuffle_cell_type_def)
  have "h' ! k = h ! k" if "k < length h" for k
    using same that by (simp add: same_but_types_def nth_append)
  moreover have "mset (map cell_type (h' ! length h)) = mset (map cell_type (h ! meta))"
    "map group (h' ! length h) = map group (h ! meta)"
    "map cell (h' ! length h) = map cell (h ! meta)"
    using same by (simp_all add: same_but_types_def)
  moreover have "length h' = Suc (length h)" using same by (simp add: same_but_types_def)
  ultimately show ?thesis using assms(1) copy by auto
qed

lemma ex_shuffle: "shuffle_meta ex_rng 0 [ex_meta_split] =
   (1, [ex_meta_split,
        [\<lparr> cell = ''cell1'', cell_type = ''c2'', group = ''tumor'' \<rparr>,
         \<lparr> cell = ''cell2'', cell_type = ''c1'', group = ''normal'' \<rparr>]])"
  by (simp add: shuffle_meta_def shuffle_cell_type_def swap_cell_type_def set_cell_type_def
      ex_rng_def ex_meta_split_def Let_def upt_rec)

theorem shuffle_meta_permutes_witness:
  "shuffle_meta ex_rng 0 [ex_meta_split] =
     (1, [ex_meta_split,
          [\<lparr> cell = ''cell1'', cell_type = ''c2'', group = ''tumor'' \<rparr>,
           \<lparr> cell = ''cell2'', cell_type = ''c1'', group = ''normal'' \<rparr>]]) \<and>
   mset (map cell_type [\<lparr> cell = ''cell1'', cell_type = ''c2'', group = ''tumor'' \<rparr>,
           \<lparr> cell = ''cell2'', cell_type = ''c1'', group = ''normal'' \<rparr>]) =
     mset (map cell_type ex_meta_split)"
proof -
  have run: "shuffle_meta ex_rng 0 [ex_meta_split] =
     (1, [ex_meta_split,
          [\<lparr> cell = ''cell1'', cell_type = ''c2'', group = ''tumor'' \<rparr>,
           \<lparr> cell = ''cell2'', cell_type = ''c1'', group = ''normal'' \<rparr>]])"
    by (rule ex_shuffle)
  have "(0::nat) < length [ex_meta_split]" by simp
  from shuffle_meta_permutes [OF this run] show ?thesis using run by simp
qed

end
